theory Spec2Isabelle
  imports Main "HOL-Library.Sublist" "HOL-Library.Multiset"
    "HOL-Library.Char_ord" "HOL-Library.List_Lexorder"
begin

section \<open>The camera-guide site generator (build-cameras.js)\<close>

text \<open>
  The script reads one JSON record per camera, sorts and groups the records, renders one
  HTML page per record and one index page, and writes them. This theory embeds the
  script function by function. A JavaScript string is a \<^typ>\<open>string\<close>: the list of the
  bytes of its UTF-8 encoding, which is what \<^verbatim>\<open>fs.writeFileSync\<close> writes; the four
  characters the script escapes are ASCII, and no byte of a longer UTF-8 sequence is
  ASCII, so replacing them bytewise is replacing them characterwise. Numbers are
  integers (years, prices, counts): \<^typ>\<open>int\<close>, printed in decimal as JavaScript prints
  an integer below \<open>10\<^sup>2\<^sup>1\<close>. An optional field is an \<^typ>\<open>'a option\<close>, \<^term>\<open>None\<close> for a
  field that is absent or \<^verbatim>\<open>null\<close>; a string field that is present and empty is
  \<^term>\<open>Some []\<close>, and JavaScript's truthiness is written out at every test. The
  records have the types of the data model (a string where the script treats a value
  as a string, a list where it maps over it); only the values of the specification
  fields, which the script converts with \<^verbatim>\<open>String\<close>, are arbitrary scalars. The
  field \<^verbatim>\<open>id\<close> is \<open>cam_id\<close>, \<^verbatim>\<open>notes\<close> is \<open>notesText\<close>, \<^verbatim>\<open>min\<close> and \<^verbatim>\<open>max\<close> are
  \<open>minP\<close> and \<open>maxP\<close>, and the fields \<^verbatim>\<open>url\<close>, \<^verbatim>\<open>title\<close>, \<^verbatim>\<open>source\<close> and \<^verbatim>\<open>label\<close> carry
  the initial of their record.
\<close>

subsection \<open>JavaScript strings, numbers and truthiness\<close>

definition digitChar :: "nat \<Rightarrow> char" where
  "digitChar d = char_of (48 + d)"

fun showNat :: "nat \<Rightarrow> string" where
  "showNat n = (if n < 10 then [digitChar n] else showNat (n div 10) @ [digitChar (n mod 10)])"

declare showNat.simps [simp del]

text \<open>\<^verbatim>\<open>String(n)\<close> and \<^verbatim>\<open>`${n}`\<close> for an integer \<open>n\<close>.\<close>

definition showInt :: "int \<Rightarrow> string" where
  "showInt i = (if i < 0 then CHR ''-'' # showNat (nat (- i)) else showNat (nat i))"

text \<open>\<^verbatim>\<open>xs.join(sep)\<close>.\<close>

fun joinWith :: "string \<Rightarrow> string list \<Rightarrow> string" where
  "joinWith sep [] = []"
| "joinWith sep [x] = x"
| "joinWith sep (x # y # ys) = x @ sep @ joinWith sep (y # ys)"

text \<open>\<^verbatim>\<open>s.includes(pat)\<close>: \<open>pat\<close> occurs in \<open>s\<close> as a contiguous substring.\<close>

fun includes_str :: "string \<Rightarrow> string \<Rightarrow> bool" where
  "includes_str [] pat = (pat = [])"
| "includes_str (c # cs) pat = (prefix pat (c # cs) \<or> includes_str cs pat)"

text \<open>
  \<^verbatim>\<open>s.toLowerCase()\<close> on the ASCII letters; every other byte is kept (the script
  lower-cases brand names only to build a fragment identifier).
\<close>

definition lowerChar :: "char \<Rightarrow> char" where
  "lowerChar c =
     (let n = (of_char c :: nat) in if 65 \<le> n \<and> n \<le> 90 then char_of (n + 32) else c)"

definition toLowerCase :: "string \<Rightarrow> string" where
  "toLowerCase s = map lowerChar s"

text \<open>\<^verbatim>\<open>s.replace(/c/g, r)\<close> for a single character \<open>c\<close>: every occurrence is replaced.\<close>

definition replaceAll :: "char \<Rightarrow> string \<Rightarrow> string \<Rightarrow> string" where
  "replaceAll c r s = concat (map (\<lambda>x. if x = c then r else [x]) s)"

text \<open>
  A string is truthy when it is not empty; an optional string when it is present and
  not empty; a number when it is not zero.
\<close>

definition truthyStr :: "string option \<Rightarrow> bool" where
  "truthyStr s = (case s of None \<Rightarrow> False | Some t \<Rightarrow> t \<noteq> [])"

text \<open>\<^verbatim>\<open>a || b\<close> on strings: the left value when it is truthy, else the right one.\<close>

definition orStr :: "string option \<Rightarrow> string \<Rightarrow> string" where
  "orStr a b = (case a of None \<Rightarrow> b | Some t \<Rightarrow> if t \<noteq> [] then t else b)"

definition truthyNum :: "int option \<Rightarrow> bool" where
  "truthyNum n = (case n of None \<Rightarrow> False | Some k \<Rightarrow> k \<noteq> 0)"

text \<open>The value of a free-form specification field: any JSON scalar.\<close>

datatype jsprim = PNull | PBool bool | PNum int | PStr string

fun truthyPrim :: "jsprim \<Rightarrow> bool" where
  "truthyPrim PNull = False"
| "truthyPrim (PBool b) = b"
| "truthyPrim (PNum n) = (n \<noteq> 0)"
| "truthyPrim (PStr s) = (s \<noteq> [])"

text \<open>\<^verbatim>\<open>String(v)\<close>.\<close>

fun toString :: "jsprim \<Rightarrow> string" where
  "toString PNull = ''null''"
| "toString (PBool b) = (if b then ''true'' else ''false'')"
| "toString (PNum n) = showInt n"
| "toString (PStr s) = s"

text \<open>The non-ASCII characters of the templates, as UTF-8.\<close>

definition ndash :: string where
  "ndash = [CHR 0xE2, CHR 0x80, CHR 0x93]"

definition mdash :: string where
  "mdash = [CHR 0xE2, CHR 0x80, CHR 0x94]"

definition middot :: string where
  "middot = [CHR 0xC2, CHR 0xB7]"

subsection \<open>The data model\<close>

record priceEntry =
  minP :: int
  maxP :: int

record pricingInfo =
  poor :: "priceEntry option"
  average :: "priceEntry option"
  good :: "priceEntry option"
  excellent :: "priceEntry option"
  mint :: "priceEntry option"
  p_source :: "string option"

record article =
  a_url :: "string option"
  a_title :: "string option"
  a_source :: "string option"

record manual =
  m_url :: "string option"
  m_source :: "string option"

record gallery =
  g_url :: "string option"
  g_label :: "string option"

record attribution =
  author :: "string option"
  licenseUrl :: "string option"
  license :: "string option"
  sourceUrl :: "string option"

record camera =
  cam_id :: string
  brand :: string
  fullName :: string
  tagline :: "string option"
  yearStart :: int
  yearEnd :: "int option"
  format :: "string option"
  film :: "string list option"
  madeIn :: "string option"
  specs :: "(string \<rightharpoonup> jsprim) option"
  features :: "string list option"
  innovations :: "string list option"
  famousUsers :: "string option"
  popCulture :: "string option"
  notesText :: "string option"
  history :: "string option"
  pricing :: "pricingInfo option"
  articles :: "article list option"
  manuals :: "manual list option"
  galleries :: "gallery list option"
  localImage :: "string option"
  imageAttribution :: "attribution option"
  ebayUrl :: "string option"

subsection \<open>Escaping and formatting helpers\<close>

text \<open>
  \<^verbatim>\<open>escHtml(s)\<close>: a falsy argument gives the empty string; otherwise four replacements
  in the script's order, the ampersand first.
\<close>

definition escHtml :: "string option \<Rightarrow> string" where
  "escHtml s =
     (case s of
        None \<Rightarrow> []
      | Some t \<Rightarrow>
          if t = [] then []
          else replaceAll (CHR 0x22) ''&quot;''
                 (replaceAll (CHR ''>'') ''&gt;''
                   (replaceAll (CHR ''<'') ''&lt;''
                     (replaceAll (CHR ''&'') ''&amp;'' t))))"

subsubsection \<open>formatPrice\<close>

definition conditions :: "string list" where
  "conditions = [''poor'', ''average'', ''good'', ''excellent'', ''mint'']"

definition labels :: "string list" where
  "labels = [''Poor'', ''Average'', ''Good'', ''Excellent'', ''Mint'']"

text \<open>\<^verbatim>\<open>pricing[key]\<close>: the condition entry stored under a key, if any.\<close>

definition pricingGet :: "pricingInfo \<Rightarrow> string \<Rightarrow> priceEntry option" where
  "pricingGet p k =
     (if k = ''poor'' then poor p
      else if k = ''average'' then average p
      else if k = ''good'' then good p
      else if k = ''excellent'' then excellent p
      else if k = ''mint'' then mint p
      else None)"

definition priceRow :: "string \<Rightarrow> priceEntry \<Rightarrow> string" where
  "priceRow label p =
     ''<tr><td>'' @ label @ ''</td><td>$'' @ showInt (minP p) @ '' '' @ ndash @ '' $'' @
     showInt (maxP p) @ ''</td></tr>''"

text \<open>The loop over the indices of \<open>conditions\<close>, appending a row for each truthy entry.\<close>

definition priceRows :: "pricingInfo \<Rightarrow> string" where
  "priceRows p =
     foldl (\<lambda>rows i. case pricingGet p (conditions ! i) of
                         None \<Rightarrow> rows
                       | Some e \<Rightarrow> rows @ priceRow (labels ! i) e)
       [] [0..<length conditions]"

definition priceSource :: "pricingInfo \<Rightarrow> string" where
  \<open>priceSource p =
     (if truthyStr (p_source p)
      then ''<p class="price-source">Source: '' @ escHtml (p_source p) @ ''</p>''
      else [])\<close>

definition formatPrice :: "pricingInfo option \<Rightarrow> string" where
  \<open>formatPrice pr =
     (case pr of
        None \<Rightarrow> []
      | Some p \<Rightarrow>
          let rows = priceRows p in
          if rows = [] then []
          else
            ''\<newline>'' @
            ''    <div class="pricing-table">\<newline>'' @
            ''      <h3>Current Market Prices (USD)</h3>\<newline>'' @
            ''      <table>\<newline>'' @
            ''        <thead><tr><th scope="col">Condition</th><th scope="col">Price Range</th></tr></thead>\<newline>'' @
            ''        <tbody>'' @ rows @ ''</tbody>\<newline>'' @
            ''      </table>\<newline>'' @
            ''      '' @ priceSource p @ ''\<newline>'' @
            ''    </div>'')\<close>

subsubsection \<open>specsTable\<close>

definition specFields :: "(string \<times> string) list" where
  "specFields =
     [(''takingLens'', ''Taking Lens''),
      (''viewingLens'', ''Viewing Lens''),
      (''elements'', ''Lens Elements''),
      (''shutter'', ''Shutter''),
      (''shutterSpeeds'', ''Shutter Speeds''),
      (''meter'', ''Light Meter''),
      (''filterMount'', ''Filter Mount''),
      (''focusing'', ''Focusing''),
      (''weight'', ''Weight'')]"

definition specRow :: "string \<Rightarrow> jsprim \<Rightarrow> string" where
  "specRow label v =
     ''<tr><td>'' @ label @ ''</td><td>'' @ escHtml (Some (toString v)) @ ''</td></tr>''"

definition specRows :: "(string \<rightharpoonup> jsprim) \<Rightarrow> string" where
  "specRows sp =
     foldl (\<lambda>rows (key, label). case sp key of
                                    None \<Rightarrow> rows
                                  | Some v \<Rightarrow> if truthyPrim v then rows @ specRow label v else rows)
       [] specFields"

definition specsTable :: "(string \<rightharpoonup> jsprim) option \<Rightarrow> string" where
  \<open>specsTable s =
     (case s of
        None \<Rightarrow> []
      | Some sp \<Rightarrow>
          ''<table class="specs-table" role="table" aria-label="Camera specifications"><tbody>'' @
          specRows sp @ ''</tbody></table>'')\<close>

subsection \<open>Loading: sorting and grouping\<close>

text \<open>
  \<^verbatim>\<open>a.brand.localeCompare(b.brand)\<close> is the host's collation: it is a parameter \<open>lc\<close> of
  the model, a function to a negative, zero or positive integer. The comparator of the
  sort is \<^verbatim>\<open>lc(...) || a.yearStart - b.yearStart\<close>: the year difference is taken when the
  brands compare equal.
\<close>

type_synonym localeCompare = "string \<Rightarrow> string \<Rightarrow> int"

definition compareCameras :: "localeCompare \<Rightarrow> camera \<Rightarrow> camera \<Rightarrow> int" where
  "compareCameras lc a b =
     (let r = lc (brand a) (brand b) in if r \<noteq> 0 then r else yearStart a - yearStart b)"

text \<open>
  \<^verbatim>\<open>cameras.sort(cmp)\<close> is a stable sort. For a consistent comparator its result is
  determined: the sorted arrangement in which records that compare equal keep their
  order. The model computes it by insertion from the right into the sorted rest, a
  record going in front of the first record that it does not follow. (For an
  inconsistent comparator the language leaves the result to the implementation.)
\<close>

fun insertCamera :: "localeCompare \<Rightarrow> camera \<Rightarrow> camera list \<Rightarrow> camera list" where
  "insertCamera lc x [] = [x]"
| "insertCamera lc x (y # ys) =
     (if compareCameras lc x y \<le> 0 then x # y # ys else y # insertCamera lc x ys)"

definition sortCameras :: "localeCompare \<Rightarrow> camera list \<Rightarrow> camera list" where
  "sortCameras lc cs = foldr (insertCamera lc) cs []"

text \<open>
  \<^verbatim>\<open>brands\<close> is a plain object used as a dictionary from brand to the list of its
  records. A plain object inherits the properties of \<^verbatim>\<open>Object.prototype\<close>, so for a
  brand named like one of them \<^verbatim>\<open>brands[cam.brand]\<close> is truthy before anything is
  stored, no list is created, and \<^verbatim>\<open>.push\<close> is not a function: the script stops with a
  TypeError before any page is written. The other error of the model is the one that
  \<^verbatim>\<open>fs.writeFileSync\<close> throws when it cannot write (\<^verbatim>\<open>ENOENT\<close>, \<^verbatim>\<open>EACCES\<close> and
  the like), a system error.
\<close>

datatype error = TypeError | SystemError

type_synonym grouping = "string \<rightharpoonup> camera list"

definition objectPrototypeKeys :: "string list" where
  "objectPrototypeKeys =
     [''constructor'', ''__defineGetter__'', ''__defineSetter__'', ''hasOwnProperty'',
      ''__lookupGetter__'', ''__lookupSetter__'', ''isPrototypeOf'', ''propertyIsEnumerable'',
      ''toString'', ''valueOf'', ''__proto__'', ''toLocaleString'']"

text \<open>
  \<open>lookupBrand\<close> is \<^verbatim>\<open>brands[b] || []\<close> for a brand \<open>b\<close> that is not an inherited property
  name: the brands of \<open>brandOrder\<close>, and the brand of any record once the grouping has
  succeeded. A stored list is an array, which is truthy also when it is empty.
\<close>

definition lookupBrand :: "grouping \<Rightarrow> string \<Rightarrow> camera list" where
  "lookupBrand brands b = (case brands b of None \<Rightarrow> [] | Some cs \<Rightarrow> cs)"

text \<open>
  One round of the grouping loop: \<^verbatim>\<open>if (!brands[cam.brand]) brands[cam.brand] = [];\<close>
  and then \<^verbatim>\<open>brands[cam.brand].push(cam)\<close>.
\<close>

definition groupStep :: "grouping \<Rightarrow> camera \<Rightarrow> error + grouping" where
  "groupStep brands cam =
     (if brand cam \<in> set objectPrototypeKeys then Inl TypeError
      else
        let brands1 = (if brands (brand cam) = None then brands(brand cam \<mapsto> []) else brands)
        in Inr (brands1(brand cam \<mapsto> lookupBrand brands1 (brand cam) @ [cam])))"

fun groupLoop :: "grouping \<Rightarrow> camera list \<Rightarrow> error + grouping" where
  "groupLoop brands [] = Inr brands"
| "groupLoop brands (cam # cams) =
     (case groupStep brands cam of
        Inl e \<Rightarrow> Inl e
      | Inr brands1 \<Rightarrow> groupLoop brands1 cams)"

definition groupCameras :: "camera list \<Rightarrow> error + grouping" where
  "groupCameras cameras = groupLoop Map.empty cameras"

definition brandOrder :: "string list" where
  "brandOrder = [''Rollei'', ''Yashica'', ''Mamiya'', ''Minolta'']"

subsection \<open>Fragments of a camera page\<close>

subsubsection \<open>relatedCameras\<close>

definition siblings :: "grouping \<Rightarrow> camera \<Rightarrow> camera list" where
  "siblings brands cam = filter (\<lambda>c. cam_id c \<noteq> cam_id cam) (lookupBrand brands (brand cam))"

definition relatedLink :: "camera \<Rightarrow> string" where
  \<open>relatedLink c =
     ''<a href="/cameras/'' @ cam_id c @ ''.html">'' @ escHtml (Some (fullName c)) @ ''</a>''\<close>

definition relatedCameras :: "grouping \<Rightarrow> camera \<Rightarrow> string" where
  \<open>relatedCameras brands cam =
     (let sibs = siblings brands cam in
      if length sibs = 0 then []
      else
        let links = joinWith '', '' (map relatedLink sibs) in
        ''<div class="related"><h3>More '' @ escHtml (Some (brand cam)) @
        '' TLR Cameras</h3><p>'' @ links @ ''</p></div>'')\<close>

subsubsection \<open>articlesList, manualsList, galleriesList\<close>

definition articleItem :: "article \<Rightarrow> string" where
  \<open>articleItem a =
     ''<li><a href="'' @ escHtml (a_url a) @ ''" target="_blank" rel="noopener">'' @
     escHtml (a_title a) @ ''</a> <span class="source">'' @ mdash @ '' '' @
     escHtml (a_source a) @ ''</span></li>''\<close>

definition articlesList :: "article list option \<Rightarrow> string" where
  \<open>articlesList as =
     (case as of
        None \<Rightarrow> []
      | Some arts \<Rightarrow>
          if length arts = 0 then []
          else
            let items = joinWith ''\<newline>'' (map articleItem arts) in
            ''<div class="resources"><h3>Articles &amp; Reviews</h3><ul>'' @ items @ ''</ul></div>'')\<close>

definition manualItem :: "manual \<Rightarrow> string" where
  \<open>manualItem m =
     ''<li><a href="'' @ escHtml (m_url m) @ ''" target="_blank" rel="noopener">'' @
     escHtml (m_source m) @ ''</a></li>''\<close>

definition manualsList :: "manual list option \<Rightarrow> string" where
  \<open>manualsList ms =
     (case ms of
        None \<Rightarrow> []
      | Some mans \<Rightarrow>
          if length mans = 0 then []
          else
            let items = joinWith ''\<newline>'' (map manualItem mans) in
            ''<div class="resources"><h3>Manuals &amp; Documentation</h3><ul>'' @ items @
            ''</ul></div>'')\<close>

text \<open>
  \<^verbatim>\<open>g.url && g.url.includes('google.com')\<close> decides the \<^verbatim>\<open>rel\<close> attribute of a gallery
  link.
\<close>

definition isGoogle :: "gallery \<Rightarrow> bool" where
  "isGoogle g =
     (case g_url g of None \<Rightarrow> False | Some u \<Rightarrow> u \<noteq> [] \<and> includes_str u ''google.com'')"

definition galleryRel :: "gallery \<Rightarrow> string" where
  "galleryRel g = (if isGoogle g then ''noopener nofollow'' else ''noopener'')"

definition galleryItem :: "gallery \<Rightarrow> string" where
  \<open>galleryItem g =
     ''<li><a href="'' @ escHtml (g_url g) @ ''" target="_blank" rel="'' @ galleryRel g @ ''">'' @
     escHtml (g_label g) @ ''</a></li>''\<close>

definition galleriesList :: "gallery list option \<Rightarrow> string" where
  \<open>galleriesList gs =
     (case gs of
        None \<Rightarrow> []
      | Some gals \<Rightarrow>
          if length gals = 0 then []
          else
            let items = joinWith ''\<newline>'' (map galleryItem gals) in
            ''<div class="resources"><h3>Photo Galleries</h3><ul>'' @ items @ ''</ul></div>'')\<close>

subsubsection \<open>imageAttribution\<close>

text \<open>The function is \<open>imageAttributionHtml\<close> here; the field of the record keeps the name.\<close>

definition imageAttributionHtml :: "attribution option \<Rightarrow> string" where
  \<open>imageAttributionHtml at =
     (case at of
        None \<Rightarrow> []
      | Some attr \<Rightarrow>
          ''<p class="attribution">Photo: '' @ escHtml (author attr) @ '' '' @ middot @
          '' <a href="'' @ escHtml (licenseUrl attr) @ ''" target="_blank" rel="noopener">'' @
          escHtml (license attr) @ ''</a> '' @ middot @ '' <a href="'' @
          escHtml (sourceUrl attr) @ ''" target="_blank" rel="noopener">Source</a></p>'')\<close>

subsubsection \<open>jsonLd\<close>

text \<open>
  \<^verbatim>\<open>path.basename(p)\<close> on a POSIX host: trailing slashes are dropped, and what follows the
  last remaining slash is returned.
\<close>

definition basename :: "string \<Rightarrow> string" where
  "basename p =
     (let q = dropWhile (\<lambda>c. c = CHR ''/'') (rev p)
      in rev (takeWhile (\<lambda>c. c \<noteq> CHR ''/'') q))"

text \<open>
  The values \<^verbatim>\<open>JSON.stringify\<close> is applied to: strings, integers, objects (their
  members in insertion order) and \<^verbatim>\<open>undefined\<close>, which makes a member disappear.
\<close>

datatype json = JUndefined | JString string | JNumber int | JObject "(string \<times> json) list"

definition hexDigit :: "nat \<Rightarrow> char" where
  "hexDigit d = (if d < 10 then char_of (48 + d) else char_of (87 + d))"

text \<open>
  A JSON string literal: the quote and the backslash are escaped with a backslash, the
  control characters by their short escapes or as \<^verbatim>\<open>\u00XX\<close>.
\<close>

definition quoteChar :: "char \<Rightarrow> string" where
  "quoteChar c =
     (let n = (of_char c :: nat) in
      if c = CHR 0x22 then [CHR 0x5C, CHR 0x22]
      else if c = CHR 0x5C then [CHR 0x5C, CHR 0x5C]
      else if n = 8 then [CHR 0x5C, CHR ''b'']
      else if n = 12 then [CHR 0x5C, CHR ''f'']
      else if n = 10 then [CHR 0x5C, CHR ''n'']
      else if n = 13 then [CHR 0x5C, CHR ''r'']
      else if n = 9 then [CHR 0x5C, CHR ''t'']
      else if n < 32 then [CHR 0x5C, CHR ''u'', CHR ''0'', CHR ''0'', hexDigit (n div 16), hexDigit (n mod 16)]
      else [c])"

definition quoteJson :: "string \<Rightarrow> string" where
  "quoteJson s = CHR 0x22 # concat (map quoteChar s) @ [CHR 0x22]"

fun stringify :: "json \<Rightarrow> string"
  and stringifyMembers :: "(string \<times> json) list \<Rightarrow> string list" where
  "stringify JUndefined = []"
| "stringify (JString s) = quoteJson s"
| "stringify (JNumber n) = showInt n"
| "stringify (JObject ms) = ''{'' @ joinWith '','' (stringifyMembers ms) @ ''}''"
| "stringifyMembers [] = []"
| "stringifyMembers ((k, v) # ms) =
     (if v = JUndefined then stringifyMembers ms
      else (quoteJson k @ '':'' @ stringify v) # stringifyMembers ms)"

text \<open>
  \<^verbatim>\<open>a?.min || b\<close> on numbers: the left value when it is present and not zero, else the
  right one.
\<close>

definition orNum :: "int option \<Rightarrow> int \<Rightarrow> int" where
  "orNum a b = (case a of None \<Rightarrow> b | Some k \<Rightarrow> if k \<noteq> 0 then k else b)"

definition lowPrice :: "pricingInfo \<Rightarrow> priceEntry \<Rightarrow> int" where
  "lowPrice p avg = orNum (map_option minP (poor p)) (minP avg)"

definition highPrice :: "pricingInfo \<Rightarrow> priceEntry \<Rightarrow> int" where
  "highPrice p avg =
     orNum (map_option maxP (mint p)) (orNum (map_option maxP (excellent p)) (maxP avg))"

text \<open>
  The member \<^verbatim>\<open>offers\<close> is added only under the guard
  \<^verbatim>\<open>cam.pricing && cam.pricing.average\<close>.
\<close>

definition offers :: "camera \<Rightarrow> (string \<times> json) list" where
  "offers cam =
     (case pricing cam of
        None \<Rightarrow> []
      | Some p \<Rightarrow>
          (case average p of
             None \<Rightarrow> []
           | Some avg \<Rightarrow>
               [(''offers'',
                 JObject
                   [(''@type'', JString ''AggregateOffer''),
                    (''priceCurrency'', JString ''USD''),
                    (''lowPrice'', JNumber (lowPrice p avg)),
                    (''highPrice'', JNumber (highPrice p avg)),
                    (''offerCount'', JNumber 1)])]))"

definition jsonLdData :: "camera \<Rightarrow> json" where
  "jsonLdData cam =
     JObject
       ([(''@context'', JString ''https://schema.org''),
         (''@type'', JString ''Product''),
         (''name'', JString (fullName cam)),
         (''description'',
            JString (orStr (tagline cam) (fullName cam @ '' twin-lens reflex camera''))),
         (''brand'', JObject [(''@type'', JString ''Brand''), (''name'', JString (brand cam))]),
         (''category'', JString ''Twin-Lens Reflex Camera''),
         (''image'',
            case localImage cam of
              None \<Rightarrow> JUndefined
            | Some f \<Rightarrow>
                if f = [] then JUndefined
                else JString (''https://metergeist.com/images/'' @ basename f))]
        @ offers cam)"

definition jsonLd :: "camera \<Rightarrow> string" where
  \<open>jsonLd cam =
     ''<script type="application/ld+json">'' @ stringify (jsonLdData cam) @ ''</script>''\<close>

subsubsection \<open>The constants of the page loop\<close>

definition years :: "camera \<Rightarrow> string" where
  "years cam =
     (if truthyNum (yearEnd cam)
      then showInt (yearStart cam) @ ndash @ showInt (the (yearEnd cam))
      else showInt (yearStart cam))"

text \<open>
  The white space of a regular expression's \<^verbatim>\<open>\s\<close>, as UTF-8: the six ASCII characters,
  and the no-break space, the Ogham space mark, U+2000 to U+200A, the line and
  paragraph separators, the narrow no-break space, the medium mathematical space, the
  ideographic space and the byte order mark.
\<close>

definition jsWhitespace :: "string list" where
  "jsWhitespace =
     [[CHR 0x09], [CHR 0x0A], [CHR 0x0B], [CHR 0x0C], [CHR 0x0D], [CHR 0x20],
      [CHR 0xC2, CHR 0xA0], [CHR 0xE1, CHR 0x9A, CHR 0x80],
      [CHR 0xE2, CHR 0x80, CHR 0x80], [CHR 0xE2, CHR 0x80, CHR 0x81],
      [CHR 0xE2, CHR 0x80, CHR 0x82], [CHR 0xE2, CHR 0x80, CHR 0x83],
      [CHR 0xE2, CHR 0x80, CHR 0x84], [CHR 0xE2, CHR 0x80, CHR 0x85],
      [CHR 0xE2, CHR 0x80, CHR 0x86], [CHR 0xE2, CHR 0x80, CHR 0x87],
      [CHR 0xE2, CHR 0x80, CHR 0x88], [CHR 0xE2, CHR 0x80, CHR 0x89],
      [CHR 0xE2, CHR 0x80, CHR 0x8A], [CHR 0xE2, CHR 0x80, CHR 0xA8],
      [CHR 0xE2, CHR 0x80, CHR 0xA9], [CHR 0xE2, CHR 0x80, CHR 0xAF],
      [CHR 0xE2, CHR 0x81, CHR 0x9F], [CHR 0xE3, CHR 0x80, CHR 0x80],
      [CHR 0xEF, CHR 0xBB, CHR 0xBF]]"

text \<open>The reversed string \<open>r\<close> without the white space it starts with.\<close>

function dropSpaceRev :: "string \<Rightarrow> string" where
  "dropSpaceRev r =
     (case find (\<lambda>w. prefix (rev w) r) jsWhitespace of
        None \<Rightarrow> r
      | Some w \<Rightarrow> dropSpaceRev (drop (length w) r))"
  by pat_completeness auto
termination
proof (relation "measure length")
  show "wf (measure length)" by simp
next
  fix r w
  assume "find (\<lambda>w. prefix (rev w) r) jsWhitespace = Some w"
  then have "w \<in> set jsWhitespace" and "prefix (rev w) r"
    by (auto simp: find_Some_iff)
  moreover from \<open>w \<in> set jsWhitespace\<close> have "w \<noteq> []"
    by (auto simp: jsWhitespace_def)
  ultimately show "(drop (length w) r, r) \<in> measure length"
    by (cases r) (auto simp: prefix_def)
qed

declare dropSpaceRev.simps [simp del]

text \<open>
  \<^verbatim>\<open>s.replace(/\.\s*$/, '')\<close>: a full stop that only white space follows up to the end of
  the string is removed together with that white space.
\<close>

definition stripFinalStop :: "string \<Rightarrow> string" where
  "stripFinalStop s =
     (case dropSpaceRev (rev s) of
        [] \<Rightarrow> s
      | c # rest \<Rightarrow> if c = CHR ''.'' then rev rest else s)"

definition taglineClean :: "camera \<Rightarrow> string" where
  "taglineClean cam = stripFinalStop (orStr (tagline cam) ''Twin-lens reflex camera'')"

definition metaDesc :: "camera \<Rightarrow> string" where
  "metaDesc cam =
     fullName cam @ '' ('' @ years cam @ '') '' @ mdash @ '' '' @ taglineClean cam @
     ''. Specs, pricing, history, and resources.''"

text \<open>\<^verbatim>\<open>imgFile\<close>: the base name of the image reference, or \<^verbatim>\<open>null\<close>.\<close>

definition imgFile :: "camera \<Rightarrow> string option" where
  "imgFile cam =
     (case localImage cam of
        None \<Rightarrow> None
      | Some f \<Rightarrow> if f = [] then None else Some (basename f))"

definition featuresHtml :: "camera \<Rightarrow> string" where
  \<open>featuresHtml cam =
     (case features cam of
        None \<Rightarrow> []
      | Some fs \<Rightarrow>
          if length fs > 0
          then ''<ul class="features-list">'' @
               joinWith [] (map (\<lambda>f. ''<li>'' @ escHtml (Some f) @ ''</li>'') fs) @ ''</ul>''
          else [])\<close>

definition innovationsHtml :: "camera \<Rightarrow> string" where
  \<open>innovationsHtml cam =
     (case innovations cam of
        None \<Rightarrow> []
      | Some is \<Rightarrow>
          if length is > 0
          then ''<div class="innovations"><h3>Innovations</h3><ul>'' @
               joinWith [] (map (\<lambda>i. ''<li>'' @ escHtml (Some i) @ ''</li>'') is) @
               ''</ul></div>''
          else [])\<close>

definition famousUsersHtml :: "camera \<Rightarrow> string" where
  \<open>famousUsersHtml cam =
     (if truthyStr (famousUsers cam)
      then ''<div class="famous-users"><h3>Notable Photographers</h3><p>'' @
           escHtml (famousUsers cam) @ ''</p></div>''
      else [])\<close>

definition popCultureHtml :: "camera \<Rightarrow> string" where
  \<open>popCultureHtml cam =
     (if truthyStr (popCulture cam)
      then ''<div class="pop-culture"><h3>Cultural Significance</h3><p>'' @
           escHtml (popCulture cam) @ ''</p></div>''
      else [])\<close>

definition notesHtml :: "camera \<Rightarrow> string" where
  \<open>notesHtml cam =
     (if truthyStr (notesText cam)
      then ''<div class="collector-notes"><h3>Collector Notes</h3><p>'' @
           escHtml (notesText cam) @ ''</p></div>''
      else [])\<close>

definition ebayHtml :: "camera \<Rightarrow> string" where
  \<open>ebayHtml cam =
     (if truthyStr (ebayUrl cam)
      then ''<p class="shop-link"><a href="'' @ escHtml (ebayUrl cam) @
           ''" target="_blank" rel="noopener nofollow sponsored">Shop for '' @
           escHtml (Some (fullName cam)) @ '' on eBay</a></p>''
      else [])\<close>

subsubsection \<open>The conditional fragments written inline in the page template\<close>

definition ogImage :: "camera \<Rightarrow> string" where
  \<open>ogImage cam =
     (if truthyStr (imgFile cam)
      then ''<meta property="og:image" content="https://metergeist.com/images/'' @
           the (imgFile cam) @ ''">''
      else [])\<close>

definition taglineHtml :: "camera \<Rightarrow> string" where
  \<open>taglineHtml cam =
     (if truthyStr (tagline cam)
      then ''<p class="cam-tagline">'' @ escHtml (tagline cam) @ ''</p>''
      else [])\<close>

text \<open>\<^verbatim>\<open>cam.film || ['120']\<close>: an array is truthy also when it is empty.\<close>

definition filmOrDefault :: "camera \<Rightarrow> string list" where
  "filmOrDefault cam = (case film cam of None \<Rightarrow> [''120''] | Some fs \<Rightarrow> fs)"

definition originHtml :: "camera \<Rightarrow> string" where
  \<open>originHtml cam =
     (if truthyStr (madeIn cam)
      then ''<span class="cam-origin">Made in '' @ escHtml (madeIn cam) @ ''</span>''
      else [])\<close>

definition camMeta :: "camera \<Rightarrow> string" where
  \<open>camMeta cam =
     ''    <div class="cam-meta">\<newline>'' @
     ''      <span class="cam-years">'' @ years cam @ ''</span>\<newline>'' @
     ''      <span class="cam-format">'' @ escHtml (format cam) @ '' on '' @
     escHtml (Some (joinWith ''/'' (filmOrDefault cam))) @ '' film</span>\<newline>'' @
     ''      '' @ originHtml cam @ ''\<newline>'' @
     ''    </div>''\<close>

definition camImage :: "camera \<Rightarrow> string" where
  \<open>camImage cam =
     (if truthyStr (imgFile cam)
      then ''\<newline>'' @
           ''      <div class="cam-image">\<newline>'' @
           ''        <img src="/images/'' @ the (imgFile cam) @ ''" alt="'' @
           escHtml (Some (fullName cam)) @ '' twin-lens reflex camera" loading="lazy">\<newline>'' @
           ''        '' @ imageAttributionHtml (imageAttribution cam) @ ''\<newline>'' @
           ''      </div>''
      else [])\<close>

definition camDetails :: "camera \<Rightarrow> string" where
  \<open>camDetails cam =
     ''      <div class="cam-details">\<newline>'' @
     ''        <h2>Specifications</h2>\<newline>'' @
     ''        '' @ specsTable (specs cam) @ ''\<newline>'' @
     ''        '' @ featuresHtml cam @ ''\<newline>'' @
     ''      </div>''\<close>

definition historyHtml :: "camera \<Rightarrow> string" where
  \<open>historyHtml cam =
     (if truthyStr (history cam)
      then ''<div class="cam-history"><h2>History</h2><p>'' @ escHtml (history cam) @
           ''</p></div>''
      else [])\<close>

subsection \<open>The camera page\<close>

definition pageHead :: "camera \<Rightarrow> string" where
  \<open>pageHead cam =
     ''<!DOCTYPE html>\<newline>'' @
     ''<html lang="en">\<newline>'' @
     ''<head>\<newline>'' @
     ''  <meta charset="UTF-8">\<newline>'' @
     ''  <meta name="viewport" content="width=device-width, initial-scale=1.0">\<newline>'' @
     ''  <title>'' @ escHtml (Some (fullName cam)) @ '' '' @ mdash @
     '' TLR Camera Guide | metergeist</title>\<newline>'' @
     ''  <meta name="description" content="'' @ escHtml (Some (metaDesc cam)) @ ''">\<newline>'' @
     ''  <meta property="og:title" content="'' @ escHtml (Some (fullName cam)) @ '' '' @ mdash @
     '' TLR Camera Guide">\<newline>'' @
     ''  <meta property="og:description" content="'' @ escHtml (Some (metaDesc cam)) @
     ''">\<newline>'' @
     ''  <meta property="og:type" content="article">\<newline>'' @
     ''  <meta property="og:url" content="https://metergeist.com/cameras/'' @ cam_id cam @
     ''.html">\<newline>'' @
     ''  '' @ ogImage cam @ ''\<newline>'' @
     ''  <link rel="stylesheet" href="/style.css">\<newline>'' @
     ''  <link rel="stylesheet" href="/cameras/cameras.css">\<newline>'' @
     ''  <link rel="icon" href="/icon.png" type="image/png">\<newline>'' @
     ''  <link rel="canonical" href="https://metergeist.com/cameras/'' @ cam_id cam @
     ''.html">\<newline>'' @
     ''  '' @ jsonLd cam @ ''\<newline>'' @
     ''</head>\<newline>''\<close>

text \<open>The opening of the body, up to the navigation bar; both templates have it.\<close>

definition navHtml :: string where
  \<open>navHtml =
     ''<body>\<newline>'' @
     ''  <a href="#main" class="skip-link">Skip to content</a>\<newline>'' @
     ''  <nav aria-label="Main navigation">\<newline>'' @
     ''    <a href="/" class="logo">\<newline>'' @
     ''      <img src="/icon.png" alt="metergeist icon">\<newline>'' @
     ''      <span>metergeist</span>\<newline>'' @
     ''    </a>\<newline>'' @
     ''    <div class="links">\<newline>'' @
     ''      <a href="/cameras/">TLR Guide</a>\<newline>'' @
     ''      <a href="/privacy.html">Privacy</a>\<newline>'' @
     ''      <a href="/support.html">Support</a>\<newline>'' @
     ''    </div>\<newline>'' @
     ''  </nav>\<newline>'' @
     ''\<newline>'' @
     ''  <main id="main">\<newline>''\<close>

text \<open>The end of both templates, after the closing tag of the content.\<close>

definition footerHtml :: string where
  \<open>footerHtml =
     ''  </main>\<newline>'' @
     ''\<newline>'' @
     ''  <footer>\<newline>'' @
     ''    &copy; 2026 metergeist\<newline>'' @
     ''    <div class="links">\<newline>'' @
     ''      <a href="/cameras/">TLR Guide</a>\<newline>'' @
     ''      <a href="/privacy.html">Privacy</a>\<newline>'' @
     ''      <a href="/support.html">Support</a>\<newline>'' @
     ''    </div>\<newline>'' @
     ''  </footer>\<newline>'' @
     ''</body>\<newline>'' @
     ''</html>''\<close>

definition pageIntro :: "camera \<Rightarrow> string" where
  \<open>pageIntro cam =
     ''  <div class="content camera-page">\<newline>'' @
     ''    <p class="breadcrumb"><a href="/cameras/">TLR Camera Guide</a> &rsaquo; <a '' @
     ''href="/cameras/#'' @ toLowerCase (brand cam) @ ''">'' @ escHtml (Some (brand cam)) @
     ''</a> &rsaquo; '' @ escHtml (Some (fullName cam)) @ ''</p>\<newline>'' @
     ''\<newline>'' @
     ''    <h1>'' @ escHtml (Some (fullName cam)) @ ''</h1>\<newline>'' @
     ''    '' @ taglineHtml cam @ ''\<newline>'' @
     ''\<newline>''\<close>

definition camLayout :: "camera \<Rightarrow> string" where
  \<open>camLayout cam =
     ''    <div class="cam-layout">\<newline>'' @
     ''      '' @ camImage cam @ ''\<newline>'' @
     ''\<newline>'' @
     camDetails cam @ ''\<newline>'' @
     ''    </div>\<newline>''\<close>

definition pageSections :: "grouping \<Rightarrow> camera \<Rightarrow> string" where
  \<open>pageSections brands cam =
     ''    '' @ historyHtml cam @ ''\<newline>'' @
     ''\<newline>'' @
     ''    '' @ famousUsersHtml cam @ ''\<newline>'' @
     ''    '' @ popCultureHtml cam @ ''\<newline>'' @
     ''    '' @ innovationsHtml cam @ ''\<newline>'' @
     ''    '' @ notesHtml cam @ ''\<newline>'' @
     ''\<newline>'' @
     ''    '' @ formatPrice (pricing cam) @ ''\<newline>'' @
     ''    '' @ ebayHtml cam @ ''\<newline>'' @
     ''\<newline>'' @
     ''    '' @ articlesList (articles cam) @ ''\<newline>'' @
     ''    '' @ manualsList (manuals cam) @ ''\<newline>'' @
     ''    '' @ galleriesList (galleries cam) @ ''\<newline>'' @
     ''\<newline>'' @
     ''    '' @ relatedCameras brands cam @ ''\<newline>''\<close>

definition appCta :: "camera \<Rightarrow> string" where
  \<open>appCta cam =
     ''    <div class="app-cta">\<newline>'' @
     ''      <h3>Shoot with your '' @ escHtml (Some (fullName cam)) @ ''</h3>\<newline>'' @
     ''      <p><a href="/">metergeist</a> is a free <a href="/">light meter app</a> '' @
     ''and <a href="/">film roll tracker</a> built for <a href="/cameras/">TLR</a> and '' @
     ''medium format photographers. Meter light, load film, track every frame.</p>\<newline>'' @
     ''    </div>\<newline>'' @
     ''  </div>\<newline>''\<close>

text \<open>
  The template of a camera page, cut at its blank lines: each part is the text of the
  template between two cuts, so the page is their concatenation.
\<close>

definition cameraPage :: "grouping \<Rightarrow> camera \<Rightarrow> string" where
  \<open>cameraPage brands cam =
     pageHead cam @ navHtml @ pageIntro cam @
     camMeta cam @ ''\<newline>'' @ ''\<newline>'' @
     camLayout cam @ ''\<newline>'' @
     pageSections brands cam @ ''\<newline>'' @
     appCta cam @ footerHtml\<close>

subsection \<open>The index page\<close>

definition cardImage :: "camera \<Rightarrow> string" where
  \<open>cardImage cam =
     (if truthyStr (imgFile cam)
      then ''<img src="/images/'' @ the (imgFile cam) @ ''" alt="'' @
           escHtml (Some (fullName cam)) @ '' TLR camera" loading="lazy">''
      else [])\<close>

text \<open>\<^verbatim>\<open>priceRange\<close>: the range of the average condition, or the empty string.\<close>

definition priceRange :: "camera \<Rightarrow> string" where
  "priceRange cam =
     (case pricing cam of
        None \<Rightarrow> []
      | Some p \<Rightarrow>
          (case average p of
             None \<Rightarrow> []
           | Some avg \<Rightarrow> ''$'' @ showInt (minP avg) @ ndash @ ''$'' @ showInt (maxP avg)))"

definition cardPrice :: "camera \<Rightarrow> string" where
  \<open>cardPrice cam =
     (if priceRange cam \<noteq> []
      then ''<span class="card-price">'' @ priceRange cam @ '' avg</span>''
      else [])\<close>

definition indexCard :: "camera \<Rightarrow> string" where
  \<open>indexCard cam =
     ''\<newline>'' @
     ''      <a href="/cameras/'' @ cam_id cam @ ''.html" class="camera-card">\<newline>'' @
     ''        '' @ cardImage cam @ ''\<newline>'' @
     ''        <div class="card-info">\<newline>'' @
     ''          <h3>'' @ escHtml (Some (fullName cam)) @ ''</h3>\<newline>'' @
     ''          <span class="card-years">'' @ years cam @ ''</span>\<newline>'' @
     ''          '' @ cardPrice cam @ ''\<newline>'' @
     ''        </div>\<newline>'' @
     ''      </a>''\<close>

definition brandSection :: "grouping \<Rightarrow> string \<Rightarrow> string" where
  \<open>brandSection brands b =
     (let cams = lookupBrand brands b;
          cards = joinWith ''\<newline>'' (map indexCard cams)
      in ''\<newline>'' @
         ''    <div class="brand-section" id="'' @ toLowerCase b @ ''">\<newline>'' @
         ''      <h2>'' @ escHtml (Some b) @ '' TLR Cameras</h2>\<newline>'' @
         ''      <div class="camera-grid">'' @ cards @ ''</div>\<newline>'' @
         ''    </div>'')\<close>

definition brandSections :: "grouping \<Rightarrow> string" where
  \<open>brandSections brands = joinWith ''\<newline>'' (map (brandSection brands) brandOrder)\<close>

definition indexHead :: "nat \<Rightarrow> string" where
  \<open>indexHead n =
     ''<!DOCTYPE html>\<newline>'' @
     ''<html lang="en">\<newline>'' @
     ''<head>\<newline>'' @
     ''  <meta charset="UTF-8">\<newline>'' @
     ''  <meta name="viewport" content="width=device-width, initial-scale=1.0">\<newline>'' @
     ''  <title>TLR Camera Guide '' @ mdash @
     '' Twin Lens Reflex Cameras | metergeist</title>\<newline>'' @
     ''  <meta name="description" content="Complete guide to 48 twin-lens reflex (TLR) '' @
     ''cameras. Specs, history, pricing, and resources for Rolleiflex, Rolleicord, Yashica, '' @
     ''Mamiya, and Minolta TLR cameras.">\<newline>'' @
     ''  <meta property="og:title" content="TLR Camera Guide '' @ mdash @
     '' Twin Lens Reflex Cameras">\<newline>'' @
     ''  <meta property="og:description" content="Complete guide to 48 TLR cameras. Specs, '' @
     ''history, pricing, and resources for Rolleiflex, Yashica, Mamiya, and Minolta.">\<newline>'' @
     ''  <meta property="og:type" content="website">\<newline>'' @
     ''  <meta property="og:url" content="https://metergeist.com/cameras/">\<newline>'' @
     ''  <link rel="stylesheet" href="/style.css">\<newline>'' @
     ''  <link rel="stylesheet" href="/cameras/cameras.css">\<newline>'' @
     ''  <link rel="icon" href="/icon.png" type="image/png">\<newline>'' @
     ''  <link rel="canonical" href="https://metergeist.com/cameras/">\<newline>'' @
     ''  <script type="application/ld+json">\<newline>'' @
     ''  {\<newline>'' @
     ''    "@context": "https://schema.org",\<newline>'' @
     ''    "@type": "CollectionPage",\<newline>'' @
     ''    "name": "TLR Camera Guide",\<newline>'' @
     ''    "description": "Complete guide to 48 twin-lens reflex cameras from Rolleiflex, '' @
     ''Yashica, Mamiya, and Minolta.",\<newline>'' @
     ''    "url": "https://metergeist.com/cameras/",\<newline>'' @
     ''    "numberOfItems": '' @ showNat n @ ''\<newline>'' @
     ''  }\<newline>'' @
     ''  </script>\<newline>'' @
     ''</head>\<newline>''\<close>

definition indexIntro :: "nat \<Rightarrow> string" where
  \<open>indexIntro n =
     ''  <div class="content">\<newline>'' @
     ''    <h1>TLR Camera Guide</h1>\<newline>'' @
     ''    <p class="guide-intro">A comprehensive guide to <strong>'' @ showNat n @
     '' twin-lens reflex cameras</strong> spanning 1928 to 1986. Explore specs, history, '' @
     ''current market prices, manuals, and sample photos for every major TLR from <a '' @
     ''href="#rollei">Rolleiflex</a>, <a href="#yashica">Yashica</a>, <a href="#mamiya">Mamiya</a>, '' @
     ''and <a href="#minolta">Minolta</a>.</p>\<newline>'' @
     ''\<newline>'' @
     ''    <p class="guide-intro">Whether you're buying your first medium format camera '' @
     ''or researching a specific model, this guide covers every TLR from the affordable '' @
     ''<a href="/cameras/yashica-a.html">Yashica-A</a> to the legendary <a href="/cameras/rolleiflex-28f.html">Rolleiflex '' @
     ''2.8F</a>.</p>\<newline>'' @
     ''\<newline>'' @
     ''    <div class="brand-nav">\<newline>'' @
     ''      <a href="#rollei">Rolleiflex &amp; Rolleicord</a>\<newline>'' @
     ''      <a href="#yashica">Yashica</a>\<newline>'' @
     ''      <a href="#mamiya">Mamiya</a>\<newline>'' @
     ''      <a href="#minolta">Minolta</a>\<newline>'' @
     ''    </div>\<newline>'' @
     ''\<newline>''\<close>

definition indexCta :: string where
  \<open>indexCta =
     ''    <div class="app-cta">\<newline>'' @
     ''      <h2>Meter light for your TLR</h2>\<newline>'' @
     ''      <p><a href="/">metergeist</a> is a free <a href="/">light meter app for '' @
     ''film photography</a> built for <a href="/cameras/">TLR camera</a> and medium format '' @
     ''shooters. Real-time metering, film roll tracking, and reference photos '' @ mdash @
     '' all on your iPhone.</p>\<newline>'' @
     ''    </div>\<newline>'' @
     ''  </div>\<newline>''\<close>

definition indexHtml :: "grouping \<Rightarrow> nat \<Rightarrow> string" where
  \<open>indexHtml brands n =
     indexHead n @ navHtml @ indexIntro n @
     ''    '' @ brandSections brands @ ''\<newline>'' @ ''\<newline>'' @
     indexCta @ footerHtml\<close>

subsection \<open>The run of the script\<close>

text \<open>
  The script's input is the list of the parsed records in the order the directory was
  listed. Its effect is on the files of the machine. Which file a name joined to the
  output directory denotes, and whether the script can write there, is decided by the
  machine and not by the script, which creates no directory: the output directory may
  be missing, a name with a slash leads into a subdirectory that may not exist, two
  names may denote one file. That is the parameter \<open>resolve\<close> of the model: it gives
  for a name the file that \<^verbatim>\<open>path.join(OUT_DIR, name)\<close> denotes, or nothing when a write
  there fails. The state is the content of the files.
\<close>

type_synonym 'f resolve = "string \<Rightarrow> 'f option"

type_synonym 'f files = "'f \<rightharpoonup> string"

text \<open>
  \<^verbatim>\<open>fs.writeFileSync(path.join(OUT_DIR, name), content)\<close> replaces the content of the
  file, or throws, and then the files are taken to be as they were.
\<close>

definition writeFileSync :: "'f resolve \<Rightarrow> 'f files \<Rightarrow> string \<Rightarrow> string \<Rightarrow> error + 'f files" where
  "writeFileSync resolve fs name content =
     (case resolve name of
        None \<Rightarrow> Inl SystemError
      | Some f \<Rightarrow> Inr (fs(f \<mapsto> content)))"

text \<open>
  The loop over the cameras: each round renders the page of one record and writes it
  under the record's identifier. The first write that throws ends the run; the pages
  written before it stay.
\<close>

fun writePages :: "'f resolve \<Rightarrow> grouping \<Rightarrow> 'f files \<Rightarrow> camera list \<Rightarrow> 'f files \<times> error option" where
  "writePages resolve brands fs [] = (fs, None)"
| "writePages resolve brands fs (cam # cams) =
     (case writeFileSync resolve fs (cam_id cam @ ''.html'') (cameraPage brands cam) of
        Inl e \<Rightarrow> (fs, Some e)
      | Inr fs1 \<Rightarrow> writePages resolve brands fs1 cams)"

text \<open>
  The whole run: sort, group, write the pages, write the index. The result is the
  content of the files at the end and the error that ended the run, if one did.
\<close>

definition build :: "localeCompare \<Rightarrow> 'f resolve \<Rightarrow> 'f files \<Rightarrow> camera list \<Rightarrow> 'f files \<times> error option" where
  "build lc resolve fs files =
     (let cameras = sortCameras lc files in
      case groupCameras cameras of
        Inl e \<Rightarrow> (fs, Some e)
      | Inr brands \<Rightarrow>
          (case writePages resolve brands fs cameras of
             (fs1, Some e) \<Rightarrow> (fs1, Some e)
           | (fs1, None) \<Rightarrow>
               (case writeFileSync resolve fs1 ''index.html''
                       (indexHtml brands (length cameras)) of
                  Inl e \<Rightarrow> (fs1, Some e)
                | Inr fs2 \<Rightarrow> (fs2, None))))"

subsection \<open>Notions used to state the properties\<close>

text \<open>What escaping does to one character.\<close>

definition escChar :: "char \<Rightarrow> string" where
  "escChar c =
     (if c = CHR ''&'' then ''&amp;''
      else if c = CHR ''<'' then ''&lt;''
      else if c = CHR ''>'' then ''&gt;''
      else if c = CHR 0x22 then ''&quot;''
      else [c])"

text \<open>
  Reading attributes back from markup. The text is cut at every double quote; the
  pieces alternate between text outside attribute values and attribute values, and the
  value of an attribute \<open>name\<close> is the piece that follows a piece ending in a space,
  the name and an equals sign. This reads the markup as a browser does as long as no
  attribute value holds a double quote.
\<close>

function splitOn :: "char \<Rightarrow> string \<Rightarrow> string list" where
  "splitOn q s =
     (case dropWhile (\<lambda>c. c \<noteq> q) s of
        [] \<Rightarrow> [s]
      | _ # rest \<Rightarrow> takeWhile (\<lambda>c. c \<noteq> q) s # splitOn q rest)"
  by pat_completeness auto
termination
proof (relation "measure (\<lambda>(q, s). length s)")
  show "wf (measure (\<lambda>(q, s). length s))" by simp
next
  fix q :: char and s x rest
  assume "dropWhile (\<lambda>c. c \<noteq> q) s = x # rest"
  then have "length (x # rest) \<le> length s"
    using length_dropWhile_le [of "\<lambda>c. c \<noteq> q" s] by simp
  then show "((q, rest), (q, s)) \<in> measure (\<lambda>(q, s). length s)" by simp
qed

declare splitOn.simps [simp del]

fun attrScan :: "string \<Rightarrow> string list \<Rightarrow> string list" where
  "attrScan name (t # v # rest) =
     (if suffix ('' '' @ name @ ''='') t then v # attrScan name rest else attrScan name rest)"
| "attrScan name [t] = []"
| "attrScan name [] = []"

definition attrValues :: "string \<Rightarrow> string \<Rightarrow> string list" where
  "attrValues name html = attrScan name (splitOn (CHR 0x22) html)"

text \<open>The names of the members that \<^verbatim>\<open>JSON.stringify\<close> writes for an object.\<close>

fun memberNames :: "json \<Rightarrow> string list" where
  "memberNames (JObject ms) = map fst (filter (\<lambda>(k, v). v \<noteq> JUndefined) ms)"
| "memberNames _ = []"

text \<open>The member of an object stored under a name, \<^verbatim>\<open>undefined\<close> when there is none.\<close>

fun jsonMember :: "json \<Rightarrow> string \<Rightarrow> json" where
  "jsonMember (JObject ms) k = (case map_of ms k of None \<Rightarrow> JUndefined | Some v \<Rightarrow> v)"
| "jsonMember _ k = JUndefined"

text \<open>
  A consistent comparison function, as sorting requires of its comparator: swapping the
  arguments swaps the sign, and not following is transitive.
\<close>

definition consistentCompare :: "localeCompare \<Rightarrow> bool" where
  "consistentCompare lc =
     ((\<forall>a b. (lc a b < 0) = (0 < lc b a)) \<and>
      (\<forall>a b c. lc a b \<le> 0 \<and> lc b c \<le> 0 \<longrightarrow> lc a c \<le> 0))"

text \<open>
  One such function, the order of the strings' bytes. On the brand names of the
  examples, capitalised words of unaccented letters, it orders as a collation does.
\<close>

definition byteCompare :: localeCompare where
  "byteCompare a b = (if a < b then - 1 else if a = b then 0 else 1)"

text \<open>The text of an index section before and after its cards.\<close>

definition sectionOpen :: "string \<Rightarrow> string" where
  \<open>sectionOpen b =
     ''\<newline>'' @
     ''    <div class="brand-section" id="'' @ toLowerCase b @ ''">\<newline>'' @
     ''      <h2>'' @ escHtml (Some b) @ '' TLR Cameras</h2>\<newline>'' @
     ''      <div class="camera-grid">''\<close>

definition sectionClose :: string where
  \<open>sectionClose = ''</div>\<newline>'' @ ''    </div>''\<close>

text \<open>The row of the pricing table for a condition entry, none for an absent entry.\<close>

definition rowOf :: "string \<Rightarrow> priceEntry option \<Rightarrow> string" where
  "rowOf label e = (case e of None \<Rightarrow> [] | Some x \<Rightarrow> priceRow label x)"

text \<open>The row of the specification table for a field, none when its value is falsy.\<close>

definition specRowOf :: "(string \<rightharpoonup> jsprim) \<Rightarrow> string \<Rightarrow> string \<Rightarrow> string" where
  "specRowOf sp key label =
     (case sp key of None \<Rightarrow> [] | Some v \<Rightarrow> if truthyPrim v then specRow label v else [])"

text \<open>The characters of a text that delimit tags and attribute values.\<close>

definition markupChars :: "string \<Rightarrow> string" where
  "markupChars s = filter (\<lambda>c. c = CHR ''<'' \<or> c = CHR ''>'' \<or> c = CHR 0x22) s"

subsection \<open>Example records\<close>

text \<open>A record with the four required fields and no optional field.\<close>

definition bareCamera :: "string \<Rightarrow> string \<Rightarrow> string \<Rightarrow> int \<Rightarrow> camera" where
  "bareCamera i b n y =
     \<lparr>cam_id = i, brand = b, fullName = n, tagline = None, yearStart = y, yearEnd = None,
      format = None, film = None, madeIn = None, specs = None, features = None,
      innovations = None, famousUsers = None, popCulture = None, notesText = None,
      history = None, pricing = None, articles = None, manuals = None, galleries = None,
      localImage = None, imageAttribution = None, ebayUrl = None\<rparr>"

definition noPricing :: pricingInfo where
  "noPricing =
     \<lparr>poor = None, average = None, good = None, excellent = None, mint = None,
      p_source = None\<rparr>"

text \<open>
  The pricing of the specification's scenario: only the conditions poor (50 to 80) and
  excellent (200 to 300).
\<close>

definition poorAndExcellent :: pricingInfo where
  "poorAndExcellent =
     noPricing\<lparr>poor := Some \<lparr>minP = 50, maxP = 80\<rparr>,
               excellent := Some \<lparr>minP = 200, maxP = 300\<rparr>\<rparr>"

definition pricedCamera :: "pricingInfo \<Rightarrow> camera" where
  "pricedCamera p =
     (bareCamera ''rolleicord-i'' ''Rollei'' ''Rolleicord I'' 1933)\<lparr>pricing := Some p\<rparr>"

definition exampleArticle :: article where
  "exampleArticle =
     \<lparr>a_url = Some ''https://www.example.org/rolleicord-review'',
      a_title = Some ''Rolleicord review'', a_source = Some ''Example''\<rparr>"

definition exampleManual :: manual where
  "exampleManual =
     \<lparr>m_url = Some ''https://www.example.org/rolleicord.pdf'', m_source = Some ''Example''\<rparr>"

text \<open>
  An output directory that exists and has no subdirectory, on a machine where each
  name without a slash denotes a file of its own.
\<close>

definition flatDir :: "string resolve" where
  "flatDir name = (if CHR ''/'' \<in> set name then None else Some name)"

text \<open>Four records with no optional field, of three brands.\<close>

definition rollei37 :: camera where
  "rollei37 = bareCamera ''rolleiflex-automat'' ''Rollei'' ''Rolleiflex Automat'' 1937"

definition rollei54 :: camera where
  "rollei54 = bareCamera ''rolleiflex-28c'' ''Rollei'' ''Rolleiflex 2.8C'' 1954"

definition mamiya69 :: camera where
  "mamiya69 = bareCamera ''mamiya-c330'' ''Mamiya'' ''Mamiya C330'' 1969"

definition ricoh50 :: camera where
  "ricoh50 = bareCamera ''ricohflex'' ''Ricoh'' ''Ricohflex'' 1950"

text \<open>A record whose brand and tagline hold an ampersand.\<close>

definition taglineCamera :: camera where
  "taglineCamera =
     (bareCamera ''rolleiflex-old-standard'' ''Franke & Heidecke'' ''Rolleiflex Old Standard'' 1932)
       \<lparr>tagline := Some ''Sharp & light''\<rparr>"

section \<open>Basic facts\<close>

subsection \<open>Escaping\<close>

text \<open>
  The four replacements of \<open>escHtml\<close>, one after the other, escape each character
  once: the ampersands of the entities are written after the ampersands of the input
  have been replaced.
\<close>

lemma replaceAll_Nil [simp]: "replaceAll c r [] = []"
  by (simp add: replaceAll_def)

lemma replaceAll_Cons [simp]:
  "replaceAll c r (x # xs) = (if x = c then r else [x]) @ replaceAll c r xs"
  by (simp add: replaceAll_def)

lemma escape_passes:
  "replaceAll (CHR 0x22) ''&quot;''
     (replaceAll (CHR ''>'') ''&gt;''
       (replaceAll (CHR ''<'') ''&lt;''
         (replaceAll (CHR ''&'') ''&amp;'' t))) = concat (map escChar t)"
  by (induction t) (simp_all add: escChar_def)

lemma escHtml_Some: "escHtml (Some t) = concat (map escChar t)"
  by (cases "t = []") (simp_all add: escHtml_def escape_passes)

lemma escHtml_None [simp]: "escHtml None = []"
  by (simp add: escHtml_def)

lemma escHtml_empty [simp]: "escHtml (Some []) = []"
  by (simp add: escHtml_def)

lemma escChar_safe: "set (escChar c) \<inter> {CHR ''<'', CHR ''>'', CHR 0x22} = {}"
  by (simp add: escChar_def)

lemma escHtml_safe: "set (escHtml x) \<inter> {CHR ''<'', CHR ''>'', CHR 0x22} = {}"
proof (cases x)
  case None
  then show ?thesis by simp
next
  case (Some t)
  have "set (concat (map escChar t)) \<inter> {CHR ''<'', CHR ''>'', CHR 0x22} = {}"
    using escChar_safe by (induction t) (auto simp: Int_Un_distrib2)
  with Some show ?thesis by (simp add: escHtml_Some)
qed

lemma escHtml_120: "escHtml (Some ''120'') = ''120''"
  by (simp add: escHtml_Some escChar_def)

lemma truthyStr_simps [simp]:
  "truthyStr None = False" "truthyStr (Some []) = False" "truthyStr (Some (c # cs)) = True"
  by (simp_all add: truthyStr_def)

lemma quote_escHtml [simp]: "CHR 0x22 \<notin> set (escHtml x)"
  using escHtml_safe [of x] by auto

lemma quote_galleryRel [simp]: "CHR 0x22 \<notin> set (galleryRel g)"
  by (simp add: galleryRel_def)

lemma markupChars_Nil [simp]: "markupChars [] = []"
  by (simp add: markupChars_def)

lemma markupChars_Cons [simp]:
  "markupChars (c # s) =
     (if c = CHR ''<'' \<or> c = CHR ''>'' \<or> c = CHR 0x22 then c # markupChars s
      else markupChars s)"
  by (simp add: markupChars_def)

lemma markupChars_append [simp]: "markupChars (a @ b) = markupChars a @ markupChars b"
  by (simp add: markupChars_def)

lemma markupChars_escHtml [simp]: "markupChars (escHtml x) = []"
  using escHtml_safe [of x] by (auto simp: markupChars_def filter_empty_conv)

lemma markupChars_galleryRel [simp]: "markupChars (galleryRel g) = []"
  by (simp add: galleryRel_def markupChars_def)

lemma markup_articleItem:
  "markupChars (articleItem a) =
   markupChars (articleItem \<lparr>a_url = None, a_title = None, a_source = None\<rparr>)"
  by (simp add: articleItem_def)

lemma markup_manualItem:
  "markupChars (manualItem m) = markupChars (manualItem \<lparr>m_url = None, m_source = None\<rparr>)"
  by (simp add: manualItem_def)

lemma markup_galleryItem:
  "markupChars (galleryItem g) = markupChars (galleryItem \<lparr>g_url = None, g_label = None\<rparr>)"
  by (simp add: galleryItem_def)

lemma markup_attribution:
  "markupChars (imageAttributionHtml (Some at)) =
   markupChars (imageAttributionHtml
     (Some \<lparr>author = None, licenseUrl = None, license = None, sourceUrl = None\<rparr>))"
  by (simp add: imageAttributionHtml_def)

lemma markup_specRow: "markupChars (specRow label v) = markupChars (specRow label PNull) "
  by (simp add: specRow_def)

subsection \<open>The rows of the tables\<close>

text \<open>
  Each of the two loops appends to the rows what its field contributes, so the rows
  are the contributions in the order of the loop.
\<close>

lemma foldl_append_rows:
  "foldl (\<lambda>rows x. rows @ f x) acc xs = acc @ concat (map f xs)"
  by (induction xs arbitrary: acc) simp_all

lemma priceRows_step:
  "(\<lambda>rows i. case pricingGet p (conditions ! i) of
                 None \<Rightarrow> rows
               | Some e \<Rightarrow> rows @ priceRow (labels ! i) e) =
   (\<lambda>rows i. rows @ rowOf (labels ! i) (pricingGet p (conditions ! i)))"
  by (intro ext) (simp add: rowOf_def split: option.splits)

lemma priceRows_eq:
  "priceRows p =
     rowOf ''Poor'' (poor p) @ rowOf ''Average'' (average p) @ rowOf ''Good'' (good p) @
     rowOf ''Excellent'' (excellent p) @ rowOf ''Mint'' (mint p)"
proof -
  have "priceRows p =
          concat (map (\<lambda>i. rowOf (labels ! i) (pricingGet p (conditions ! i)))
                    [0..<length conditions])"
    unfolding priceRows_def priceRows_step foldl_append_rows by simp
  then show ?thesis
    by (simp add: conditions_def labels_def pricingGet_def)
qed

lemma rowOf_empty [simp]: "rowOf label e = [] \<longleftrightarrow> e = None"
  by (simp add: rowOf_def priceRow_def split: option.splits)

lemma priceRows_empty:
  "priceRows p = [] \<longleftrightarrow>
     poor p = None \<and> average p = None \<and> good p = None \<and> excellent p = None \<and> mint p = None"
  by (simp add: priceRows_eq)

lemma formatPrice_None [simp]: "formatPrice None = []"
  by (simp add: formatPrice_def)

lemma formatPrice_empty:
  "formatPrice (Some p) = [] \<longleftrightarrow> priceRows p = []"
  by (simp add: formatPrice_def Let_def)

lemma formatPrice_rows:
  \<open>priceRows p \<noteq> [] \<Longrightarrow>
     \<exists>before after. formatPrice (Some p) = before @ ''<tbody>'' @ priceRows p @ ''</tbody>'' @ after\<close>
proof -
  assume r: "priceRows p \<noteq> []"
  have \<open>formatPrice (Some p) =
          (''\<newline>'' @
            ''    <div class="pricing-table">\<newline>'' @
            ''      <h3>Current Market Prices (USD)</h3>\<newline>'' @
            ''      <table>\<newline>'' @
            ''        <thead><tr><th scope="col">Condition</th><th scope="col">Price Range</th></tr></thead>\<newline>'' @
            ''        '') @ ''<tbody>'' @ priceRows p @ ''</tbody>'' @
          (''\<newline>'' @ ''      </table>\<newline>'' @
            ''      '' @ priceSource p @ ''\<newline>'' @
            ''    </div>'')\<close>
    using r by (simp add: formatPrice_def Let_def)
  then show ?thesis by blast
qed

lemma source_empty:
  "priceSource (p\<lparr>p_source := Some []\<rparr>) = priceSource (p\<lparr>p_source := None\<rparr>)"
  by (simp add: priceSource_def)

lemma specRows_step:
  "(\<lambda>rows (key, label). case sp key of
                            None \<Rightarrow> rows
                          | Some v \<Rightarrow> if truthyPrim v then rows @ specRow label v else rows) =
   (\<lambda>rows x. rows @ specRowOf sp (fst x) (snd x))"
  by (intro ext) (simp add: specRowOf_def split: option.splits prod.splits)

lemma specRows_eq:
  "specRows sp =
     specRowOf sp ''takingLens'' ''Taking Lens'' @
     specRowOf sp ''viewingLens'' ''Viewing Lens'' @
     specRowOf sp ''elements'' ''Lens Elements'' @
     specRowOf sp ''shutter'' ''Shutter'' @
     specRowOf sp ''shutterSpeeds'' ''Shutter Speeds'' @
     specRowOf sp ''meter'' ''Light Meter'' @
     specRowOf sp ''filterMount'' ''Filter Mount'' @
     specRowOf sp ''focusing'' ''Focusing'' @
     specRowOf sp ''weight'' ''Weight''"
  unfolding specRows_def specRows_step foldl_append_rows by (simp add: specFields_def)

lemma specRowOf_falsy:
  "\<not> truthyPrim v \<Longrightarrow> specRowOf (sp(k \<mapsto> v)) key label = specRowOf (sp(k := None)) key label"
  by (simp add: specRowOf_def)

lemma specRows_falsy:
  "\<not> truthyPrim v \<Longrightarrow> specRows (sp(k \<mapsto> v)) = specRows (sp(k := None))"
  unfolding specRows_eq using specRowOf_falsy [of v sp k] by simp

subsection \<open>The structured-data block\<close>

lemma offers_no_pricing [simp]: "pricing cam = None \<Longrightarrow> offers cam = []"
  by (simp add: offers_def)

lemma memberNames_jsonLdData:
  "memberNames (jsonLdData cam) =
     [''@context'', ''@type'', ''name'', ''description'', ''brand'', ''category''] @
     (if truthyStr (localImage cam) then [''image''] else []) @ map fst (offers cam)"
  by (auto simp: jsonLdData_def offers_def truthyStr_def split: option.splits)

lemma jsonMember_offers:
  "jsonMember (jsonLdData cam) ''offers'' =
     (case offers cam of [] \<Rightarrow> JUndefined | (k, v) # _ \<Rightarrow> v)"
  by (simp add: jsonLdData_def offers_def split: option.splits)

subsection \<open>Reading attributes\<close>

text \<open>
  Cutting at the double quotes goes through a text character by character, and in one
  step through a stretch without a double quote, such as an escaped string.
\<close>

lemma includes_str_sublist: "includes_str s pat \<longleftrightarrow> sublist pat s"
proof (induction s)
  case Nil
  then show ?case by auto
next
  case (Cons c cs)
  then show ?case by (cases pat) (auto simp: sublist_Cons_right)
qed

lemma splitOn_Nil: "splitOn q [] = [[]]"
  by (subst splitOn.simps) simp

lemma splitOn_not_Nil [simp]: "splitOn q s \<noteq> []"
  by (subst splitOn.simps) (simp split: list.splits)

lemma splitOn_unfold:
  "splitOn q s =
     (case dropWhile (\<lambda>c. c \<noteq> q) s of
        [] \<Rightarrow> [s]
      | x # rest \<Rightarrow> takeWhile (\<lambda>c. c \<noteq> q) s # splitOn q rest)"
  by (rule splitOn.simps)

lemma splitOn_Cons:
  "splitOn q (c # s) =
     (if c = q then [] # splitOn q s
      else (case splitOn q s of [] \<Rightarrow> [[c]] | h # t \<Rightarrow> (c # h) # t))"
proof (cases "c = q")
  case True
  have "splitOn q (q # s) = [] # splitOn q s"
    by (rule trans [OF splitOn_unfold]) simp
  with True show ?thesis by simp
next
  case False
  show ?thesis
  proof (cases "dropWhile (\<lambda>c. c \<noteq> q) s")
    case Nil
    have "splitOn q (c # s) = [c # s]"
      by (rule trans [OF splitOn_unfold]) (simp add: False Nil)
    moreover have "splitOn q s = [s]"
      by (rule trans [OF splitOn_unfold]) (simp add: Nil)
    ultimately show ?thesis using False by simp
  next
    case (Cons x rest)
    have "splitOn q (c # s) = (c # takeWhile (\<lambda>c. c \<noteq> q) s) # splitOn q rest"
      by (rule trans [OF splitOn_unfold]) (simp add: False Cons)
    moreover have "splitOn q s = takeWhile (\<lambda>c. c \<noteq> q) s # splitOn q rest"
      by (rule trans [OF splitOn_unfold]) (simp add: Cons)
    ultimately show ?thesis using False by simp
  qed
qed

lemma splitOn_append:
  "q \<notin> set a \<Longrightarrow>
     splitOn q (a @ s) = (case splitOn q s of [] \<Rightarrow> [a] | h # t \<Rightarrow> (a @ h) # t)"
proof (induction a)
  case Nil
  then show ?case by (cases "splitOn q s") simp_all
next
  case (Cons c a)
  then show ?case by (cases "splitOn q s") (auto simp: splitOn_Cons)
qed

lemma suffix_append_long:
  assumes "length p \<le> length l"
  shows "suffix p (x @ l) \<longleftrightarrow> suffix p l"
proof
  assume "suffix p (x @ l)"
  then obtain zs where "x @ l = zs @ p" by (auto simp: suffix_def)
  then obtain us where "(x = zs @ us \<and> us @ l = p) \<or> (x @ us = zs \<and> l = us @ p)"
    by (auto simp: append_eq_append_conv2)
  then show "suffix p l"
  proof
    assume a: "x = zs @ us \<and> us @ l = p"
    then have "length us + length l = length p" by (metis length_append)
    with assms have "length us = 0" by linarith
    then have "us = []" by simp
    with a show ?thesis by simp
  next
    assume "x @ us = zs \<and> l = us @ p"
    then show ?thesis by (simp add: suffix_def)
  qed
next
  assume "suffix p l"
  then show "suffix p (x @ l)" by (simp add: suffix_appendI)
qed

lemma rel_articleItem: "attrValues ''rel'' (articleItem a) = [''noopener'']"
  by (simp add: attrValues_def articleItem_def splitOn_Cons splitOn_append splitOn_Nil
      mdash_def suffix_Cons suffix_append_long)

lemma rel_manualItem: "attrValues ''rel'' (manualItem m) = [''noopener'']"
  by (simp add: attrValues_def manualItem_def splitOn_Cons splitOn_append splitOn_Nil
      suffix_Cons suffix_append_long)

lemma rel_galleryItem: "attrValues ''rel'' (galleryItem g) = [galleryRel g]"
  by (simp add: attrValues_def galleryItem_def splitOn_Cons splitOn_append splitOn_Nil
      suffix_Cons suffix_append_long)

lemma galleryRel_eq:
  "galleryRel g =
     (case g_url g of
        None \<Rightarrow> ''noopener''
      | Some u \<Rightarrow> if sublist ''google.com'' u then ''noopener nofollow'' else ''noopener'')"
  by (auto simp: galleryRel_def isGoogle_def includes_str_sublist split: option.splits)

subsection \<open>Fields that are present and falsy\<close>

text \<open>
  The page and the index card of a record read an optional string only through its
  truthiness and through \<open>escHtml\<close>, and the end year only through its truthiness.
\<close>

lemma filmOrDefault_None: "film cam = None \<Longrightarrow> joinWith ''/'' (filmOrDefault cam) = ''120''"
  by (simp add: filmOrDefault_def)

lemmas page_defs =
  cameraPage_def pageHead_def pageIntro_def camMeta_def camLayout_def camDetails_def
  pageSections_def appCta_def metaDesc_def taglineClean_def years_def jsonLd_def
  jsonLdData_def offers_def imgFile_def ogImage_def taglineHtml_def originHtml_def
  camImage_def historyHtml_def famousUsersHtml_def popCultureHtml_def notesHtml_def
  ebayHtml_def featuresHtml_def innovationsHtml_def filmOrDefault_def relatedCameras_def
  siblings_def orStr_def truthyNum_def

lemmas falsy_simps =
  camera.simps truthyStr_simps escHtml_None escHtml_empty option.case if_False if_True
  simp_thms refl

lemma page_tagline:
  "cameraPage brands (cam\<lparr>tagline := Some []\<rparr>) = cameraPage brands (cam\<lparr>tagline := None\<rparr>)"
  by (cases cam, hypsubst, unfold page_defs, simp only: falsy_simps)

lemma page_localImage:
  "cameraPage brands (cam\<lparr>localImage := Some []\<rparr>) =
   cameraPage brands (cam\<lparr>localImage := None\<rparr>)"
  by (cases cam, hypsubst, unfold page_defs, simp only: falsy_simps)

lemma page_yearEnd:
  "cameraPage brands (cam\<lparr>yearEnd := Some 0\<rparr>) =
   cameraPage brands (cam\<lparr>yearEnd := None\<rparr>)"
  by (cases cam, hypsubst, unfold page_defs, simp only: falsy_simps)

lemma page_format:
  "cameraPage brands (cam\<lparr>format := Some []\<rparr>) =
   cameraPage brands (cam\<lparr>format := None\<rparr>)"
  by (cases cam, hypsubst, unfold page_defs, simp only: falsy_simps)

lemma page_madeIn:
  "cameraPage brands (cam\<lparr>madeIn := Some []\<rparr>) =
   cameraPage brands (cam\<lparr>madeIn := None\<rparr>)"
  by (cases cam, hypsubst, unfold page_defs, simp only: falsy_simps)

lemma page_history:
  "cameraPage brands (cam\<lparr>history := Some []\<rparr>) =
   cameraPage brands (cam\<lparr>history := None\<rparr>)"
  by (cases cam, hypsubst, unfold page_defs, simp only: falsy_simps)

lemma page_famousUsers:
  "cameraPage brands (cam\<lparr>famousUsers := Some []\<rparr>) =
   cameraPage brands (cam\<lparr>famousUsers := None\<rparr>)"
  by (cases cam, hypsubst, unfold page_defs, simp only: falsy_simps)

lemma page_popCulture:
  "cameraPage brands (cam\<lparr>popCulture := Some []\<rparr>) =
   cameraPage brands (cam\<lparr>popCulture := None\<rparr>)"
  by (cases cam, hypsubst, unfold page_defs, simp only: falsy_simps)

lemma page_notesText:
  "cameraPage brands (cam\<lparr>notesText := Some []\<rparr>) =
   cameraPage brands (cam\<lparr>notesText := None\<rparr>)"
  by (cases cam, hypsubst, unfold page_defs, simp only: falsy_simps)

lemma page_ebayUrl:
  "cameraPage brands (cam\<lparr>ebayUrl := Some []\<rparr>) =
   cameraPage brands (cam\<lparr>ebayUrl := None\<rparr>)"
  by (cases cam, hypsubst, unfold page_defs, simp only: falsy_simps)

lemmas card_defs =
  indexCard_def cardImage_def cardPrice_def priceRange_def imgFile_def years_def truthyNum_def

lemma card_localImage:
  "indexCard (cam\<lparr>localImage := Some []\<rparr>) = indexCard (cam\<lparr>localImage := None\<rparr>)"
  by (cases cam, hypsubst, unfold card_defs, simp only: falsy_simps)

lemma card_yearEnd:
  "indexCard (cam\<lparr>yearEnd := Some 0\<rparr>) = indexCard (cam\<lparr>yearEnd := None\<rparr>)"
  by (cases cam, hypsubst, unfold card_defs, simp only: falsy_simps)

subsection \<open>Sorting\<close>

text \<open>
  For a consistent comparison of brands the comparator of the sort is total and
  transitive, so insertion keeps a list sorted.
\<close>

lemma lc_swap: "consistentCompare lc \<Longrightarrow> (lc a b < 0) = (0 < lc b a)"
  unfolding consistentCompare_def by blast

lemma lc_refl: "consistentCompare lc \<Longrightarrow> lc a a = 0"
  using lc_swap [of lc a a] by linarith

lemma lc_zero_sym: "consistentCompare lc \<Longrightarrow> lc a b = 0 \<Longrightarrow> lc b a = 0"
  using lc_swap [of lc a b] lc_swap [of lc b a] by linarith

lemma compare_total:
  assumes "consistentCompare lc"
  shows "compareCameras lc a b \<le> 0 \<or> compareCameras lc b a \<le> 0"
proof -
  consider "lc (brand a) (brand b) = 0" | "lc (brand a) (brand b) < 0"
    | "0 < lc (brand a) (brand b)"
    by linarith
  then show ?thesis
  proof cases
    case 1
    with assms have "lc (brand b) (brand a) = 0" by (rule lc_zero_sym)
    with 1 show ?thesis by (auto simp: compareCameras_def)
  next
    case 2
    then show ?thesis by (simp add: compareCameras_def)
  next
    case 3
    with lc_swap [OF assms, of "brand b" "brand a"] have "lc (brand b) (brand a) < 0" by simp
    then show ?thesis by (simp add: compareCameras_def)
  qed
qed

lemma compare_trans:
  assumes c: "consistentCompare lc"
    and ab: "compareCameras lc a b \<le> 0" and bc: "compareCameras lc b c \<le> 0"
  shows "compareCameras lc a c \<le> 0"
proof -
  let ?ab = "lc (brand a) (brand b)" and ?bc = "lc (brand b) (brand c)"
  let ?ac = "lc (brand a) (brand c)"
  from c have tr: "\<And>x y z. lc x y \<le> 0 \<Longrightarrow> lc y z \<le> 0 \<Longrightarrow> lc x z \<le> 0"
    and sw: "\<And>x y. (lc x y < 0) = (0 < lc y x)"
    unfolding consistentCompare_def by blast+
  from ab have 1: "?ab \<le> 0" by (auto simp: compareCameras_def Let_def split: if_splits)
  from bc have 2: "?bc \<le> 0" by (auto simp: compareCameras_def Let_def split: if_splits)
  from 1 2 have 3: "?ac \<le> 0" by (rule tr)
  show ?thesis
  proof (cases "?ac = 0")
    case False
    with 3 show ?thesis by (simp add: compareCameras_def)
  next
    case True
    with c have ca: "lc (brand c) (brand a) = 0" by (rule lc_zero_sym)
    have "lc (brand c) (brand b) \<le> 0" using tr [of "brand c" "brand a" "brand b"] ca 1 by simp
    with 2 sw [of "brand b" "brand c"] have bc0: "?bc = 0" by auto
    have "lc (brand b) (brand a) \<le> 0" using tr [of "brand b" "brand c" "brand a"] ca 2 by simp
    with 1 sw [of "brand a" "brand b"] have ab0: "?ab = 0" by auto
    from ab ab0 have "yearStart a \<le> yearStart b" by (simp add: compareCameras_def)
    moreover from bc bc0 have "yearStart b \<le> yearStart c" by (simp add: compareCameras_def)
    ultimately show ?thesis using True by (simp add: compareCameras_def)
  qed
qed

lemma set_insertCamera [simp]: "set (insertCamera lc x xs) = insert x (set xs)"
  by (induction xs) auto

lemma mset_insertCamera [simp]: "mset (insertCamera lc x xs) = add_mset x (mset xs)"
  by (induction xs) auto

lemma sorted_insertCamera:
  assumes "consistentCompare lc"
  shows "sorted_wrt (\<lambda>a b. compareCameras lc a b \<le> 0) xs \<Longrightarrow>
         sorted_wrt (\<lambda>a b. compareCameras lc a b \<le> 0) (insertCamera lc x xs)"
proof (induction xs)
  case Nil
  then show ?case by simp
next
  case (Cons y ys)
  show ?case
  proof (cases "compareCameras lc x y \<le> 0")
    case True
    with Cons.prems compare_trans [OF assms, of x y] show ?thesis by auto
  next
    case False
    with compare_total [OF assms, of x y] have "compareCameras lc y x \<le> 0" by simp
    with False Cons show ?thesis by auto
  qed
qed

lemma mset_sortCameras [simp]: "mset (sortCameras lc cs) = mset cs"
  unfolding sortCameras_def by (induction cs) simp_all

lemma set_sortCameras [simp]: "set (sortCameras lc cs) = set cs"
  by (metis mset_sortCameras set_mset_mset)

lemma length_sortCameras [simp]: "length (sortCameras lc cs) = length cs"
  by (metis mset_sortCameras size_mset)

lemma sorted_sortCameras:
  "consistentCompare lc \<Longrightarrow>
   sorted_wrt (\<lambda>a b. compareCameras lc a b \<le> 0) (sortCameras lc cs)"
  unfolding sortCameras_def by (induction cs) (simp_all add: sorted_insertCamera)

lemma sorted_brand_before:
  assumes c: "consistentCompare lc"
    and s: "sorted_wrt (\<lambda>a b. compareCameras lc a b \<le> 0) xs"
    and i: "i < length xs" and j: "j < length xs"
    and b: "lc (brand (xs ! i)) (brand (xs ! j)) < 0"
  shows "i < j"
proof (rule ccontr)
  assume "\<not> i < j"
  then consider "i = j" | "j < i" by linarith
  then show False
  proof cases
    case 1
    with b lc_refl [OF c] show False by simp
  next
    case 2
    with s i have "compareCameras lc (xs ! j) (xs ! i) \<le> 0"
      by (simp add: sorted_wrt_iff_nth_less)
    then have "lc (brand (xs ! j)) (brand (xs ! i)) \<le> 0"
      by (auto simp: compareCameras_def Let_def split: if_splits)
    moreover from c b have "0 < lc (brand (xs ! j)) (brand (xs ! i))"
      unfolding consistentCompare_def by blast
    ultimately show False by simp
  qed
qed

lemma sorted_year_before:
  assumes c: "consistentCompare lc"
    and s: "sorted_wrt (\<lambda>a b. compareCameras lc a b \<le> 0) xs"
    and i: "i < length xs" and j: "j < length xs"
    and b: "lc (brand (xs ! i)) (brand (xs ! j)) = 0"
    and y: "yearStart (xs ! i) < yearStart (xs ! j)"
  shows "i < j"
proof (rule ccontr)
  assume "\<not> i < j"
  then consider "i = j" | "j < i" by linarith
  then show False
  proof cases
    case 1
    with y show False by simp
  next
    case 2
    with s i have "compareCameras lc (xs ! j) (xs ! i) \<le> 0"
      by (simp add: sorted_wrt_iff_nth_less)
    moreover from c b have "lc (brand (xs ! j)) (brand (xs ! i)) = 0" by (rule lc_zero_sym)
    ultimately show False using y by (simp add: compareCameras_def)
  qed
qed

subsection \<open>Stability\<close>

text \<open>
  The sort is stable: the records that compare equal to a given record stand in the
  sorted collection in the order of the input.
\<close>

lemma filter_insertCamera_other:
  "\<not> P x \<Longrightarrow> filter P (insertCamera lc x xs) = filter P xs"
  by (induction xs) simp_all

lemma filter_insertCamera_same:
  assumes c: "consistentCompare lc"
    and x: "compareCameras lc x k \<le> 0" "compareCameras lc k x \<le> 0"
  shows "filter (\<lambda>y. compareCameras lc y k \<le> 0 \<and> compareCameras lc k y \<le> 0)
           (insertCamera lc x xs) =
         x # filter (\<lambda>y. compareCameras lc y k \<le> 0 \<and> compareCameras lc k y \<le> 0) xs"
proof (induction xs)
  case Nil
  from x show ?case by simp
next
  case (Cons y ys)
  show ?case
  proof (cases "compareCameras lc x y \<le> 0")
    case True
    with x show ?thesis by simp
  next
    case False
    have "\<not> (compareCameras lc y k \<le> 0 \<and> compareCameras lc k y \<le> 0)"
    proof
      assume "compareCameras lc y k \<le> 0 \<and> compareCameras lc k y \<le> 0"
      with x(1) have "compareCameras lc x y \<le> 0"
        using compare_trans [OF c, of x k y] by simp
      with False show False by simp
    qed
    with False Cons.IH show ?thesis by auto
  qed
qed

lemma sortCameras_stable:
  assumes "consistentCompare lc"
  shows "filter (\<lambda>y. compareCameras lc y k \<le> 0 \<and> compareCameras lc k y \<le> 0)
           (sortCameras lc cs) =
         filter (\<lambda>y. compareCameras lc y k \<le> 0 \<and> compareCameras lc k y \<le> 0) cs"
proof (induction cs)
  case Nil
  show ?case by (simp add: sortCameras_def)
next
  case (Cons x cs)
  have s: "sortCameras lc (x # cs) = insertCamera lc x (sortCameras lc cs)"
    by (simp add: sortCameras_def)
  show ?case
  proof (cases "compareCameras lc x k \<le> 0 \<and> compareCameras lc k x \<le> 0")
    case True
    with filter_insertCamera_same [OF assms, of x k "sortCameras lc cs"] Cons.IH s
    show ?thesis by simp
  next
    case False
    with filter_insertCamera_other
      [of "\<lambda>y. compareCameras lc y k \<le> 0 \<and> compareCameras lc k y \<le> 0" x lc
        "sortCameras lc cs"] Cons.IH s
    show ?thesis by simp
  qed
qed

subsection \<open>Grouping, the index and the run\<close>

text \<open>
  When the grouping loop succeeds, the group of a brand is what it was before,
  followed by the records of that brand in the order of the collection; it fails
  exactly on a brand that names an inherited property.
\<close>

lemma groupStep_ok:
  "brand cam \<notin> set objectPrototypeKeys \<Longrightarrow>
   groupStep brands cam = Inr (brands(brand cam \<mapsto> lookupBrand brands (brand cam) @ [cam]))"
  by (auto simp: groupStep_def lookupBrand_def Let_def)

lemma groupStep_fail:
  "brand cam \<in> set objectPrototypeKeys \<Longrightarrow> groupStep brands cam = Inl TypeError"
  by (simp add: groupStep_def)

lemma groupLoop_lookup:
  "groupLoop brands cams = Inr brands' \<Longrightarrow>
   lookupBrand brands' b = lookupBrand brands b @ filter (\<lambda>c. brand c = b) cams"
proof (induction cams arbitrary: brands)
  case Nil
  then show ?case by simp
next
  case (Cons cam cams)
  show ?case
  proof (cases "brand cam \<in> set objectPrototypeKeys")
    case True
    with Cons.prems show ?thesis by (simp add: groupStep_fail)
  next
    case False
    with Cons.prems
    have "groupLoop (brands(brand cam \<mapsto> lookupBrand brands (brand cam) @ [cam])) cams =
          Inr brands'"
      by (simp add: groupStep_ok)
    from Cons.IH [OF this] show ?thesis by (simp add: lookupBrand_def)
  qed
qed

lemma groupCameras_lookup:
  "groupCameras cams = Inr brands \<Longrightarrow> lookupBrand brands b = filter (\<lambda>c. brand c = b) cams"
  unfolding groupCameras_def using groupLoop_lookup [of Map.empty cams brands b]
  by (simp add: lookupBrand_def)

lemma groupLoop_fails_iff:
  "(groupLoop brands cams = Inl TypeError) =
   (\<exists>c \<in> set cams. brand c \<in> set objectPrototypeKeys)"
proof (induction cams arbitrary: brands)
  case Nil
  then show ?case by simp
next
  case (Cons cam cams)
  then show ?case
    by (cases "brand cam \<in> set objectPrototypeKeys") (simp_all add: groupStep_ok groupStep_fail)
qed

lemma groupLoop_error: "groupLoop brands cams = Inl e \<Longrightarrow> e = TypeError"
proof (induction cams arbitrary: brands)
  case Nil
  then show ?case by simp
next
  case (Cons cam cams)
  then show ?case
    by (cases "brand cam \<in> set objectPrototypeKeys") (simp_all add: groupStep_ok groupStep_fail)
qed

lemma groupCameras_succeeds_iff:
  "(\<exists>brands. groupCameras cams = Inr brands) =
   (\<forall>c \<in> set cams. brand c \<notin> set objectPrototypeKeys)"
proof -
  have "(\<exists>brands. groupCameras cams = Inr brands) = (groupCameras cams \<noteq> Inl TypeError)"
  proof (cases "groupCameras cams")
    case (Inl e)
    with groupLoop_error [of Map.empty cams e] show ?thesis by (simp add: groupCameras_def)
  next
    case (Inr brands)
    then show ?thesis by simp
  qed
  then show ?thesis
    unfolding groupCameras_def using groupLoop_fails_iff [of Map.empty cams] by auto
qed

lemma siblings_eq:
  assumes g: "groupCameras cameras = Inr brands"
    and d: "distinct (map cam_id cameras)" and r: "R \<in> set cameras"
  shows "siblings brands R = filter (\<lambda>c. brand c = brand R \<and> c \<noteq> R) cameras"
proof -
  from d have inj: "inj_on cam_id (set cameras)" by (simp add: distinct_map)
  have "siblings brands R =
          filter (\<lambda>c. brand c = brand R \<and> cam_id c \<noteq> cam_id R) cameras"
    by (simp add: siblings_def groupCameras_lookup [OF g] conj_commute)
  also have "\<dots> = filter (\<lambda>c. brand c = brand R \<and> c \<noteq> R) cameras"
    using inj r by (intro filter_cong refl) (auto dest: inj_onD)
  finally show ?thesis .
qed

lemma relatedCameras_empty: "relatedCameras brands R = [] \<longleftrightarrow> siblings brands R = []"
  by (simp add: relatedCameras_def Let_def)

lemma brandSection_eq:
  "brandSection brands b =
     sectionOpen b @ joinWith ''\<newline>'' (map indexCard (lookupBrand brands b)) @ sectionClose"
  by (simp add: brandSection_def sectionOpen_def sectionClose_def Let_def)

lemma brandSection_fun:
  "brandSection brands =
     (\<lambda>b. sectionOpen b @ joinWith ''\<newline>'' (map indexCard (lookupBrand brands b)) @
          sectionClose)"
  by (rule ext) (rule brandSection_eq)

lemma brandSections_eq:
  "brandSections brands =
     sectionOpen ''Rollei'' @
       joinWith ''\<newline>'' (map indexCard (lookupBrand brands ''Rollei'')) @ sectionClose @
     ''\<newline>'' @
     sectionOpen ''Yashica'' @
       joinWith ''\<newline>'' (map indexCard (lookupBrand brands ''Yashica'')) @ sectionClose @
     ''\<newline>'' @
     sectionOpen ''Mamiya'' @
       joinWith ''\<newline>'' (map indexCard (lookupBrand brands ''Mamiya'')) @ sectionClose @
     ''\<newline>'' @
     sectionOpen ''Minolta'' @
       joinWith ''\<newline>'' (map indexCard (lookupBrand brands ''Minolta'')) @ sectionClose"
  unfolding brandSections_def brandOrder_def by (simp add: brandSection_eq)

lemma index_has_sections:
  "\<exists>before after. indexHtml brands n = before @ brandSections brands @ after"
  unfolding indexHtml_def by (metis append.assoc)

lemma sorted_years_in_group:
  assumes c: "consistentCompare lc"
    and g: "groupCameras (sortCameras lc files) = Inr brands"
  shows "sorted (map yearStart (lookupBrand brands b))"
proof -
  let ?xs = "filter (\<lambda>c. brand c = b) (sortCameras lc files)"
  have "sorted_wrt (\<lambda>x y. compareCameras lc x y \<le> 0) ?xs"
    using sorted_sortCameras [OF c] by (rule sorted_wrt_filter)
  then have "sorted_wrt (\<lambda>x y. yearStart x \<le> yearStart y) ?xs"
  proof (rule sorted_wrt_mono_rel [rotated])
    fix x y
    assume "x \<in> set ?xs" and "y \<in> set ?xs" and le: "compareCameras lc x y \<le> 0"
    then have "brand x = b" and "brand y = b" by simp_all
    with le lc_refl [OF c, of b] show "yearStart x \<le> yearStart y"
      by (simp add: compareCameras_def)
  qed
  then show ?thesis
    by (simp add: groupCameras_lookup [OF g] sorted_map)
qed

text \<open>
  The run. When the loop over the cameras completes, every name could be written, the
  file of a record holds the record's page unless a later round wrote to the same
  file, and a file that no name denotes is as it was.
\<close>

lemma writePages_other:
  "writePages resolve brands fs cams = (fs', e) \<Longrightarrow>
   \<forall>d \<in> set cams. resolve (cam_id d @ ''.html'') \<noteq> Some f \<Longrightarrow>
   fs' f = fs f"
proof (induction cams arbitrary: fs)
  case Nil
  then show ?case by simp
next
  case (Cons cam cams)
  show ?case
  proof (cases "resolve (cam_id cam @ ''.html'')")
    case None
    with Cons.prems show ?thesis by (simp add: writeFileSync_def)
  next
    case (Some g)
    with Cons.prems have w: "writePages resolve brands (fs(g \<mapsto> cameraPage brands cam)) cams = (fs', e)"
      and n: "g \<noteq> f" and r: "\<forall>d \<in> set cams. resolve (cam_id d @ ''.html'') \<noteq> Some f"
      by (auto simp: writeFileSync_def)
    from Cons.IH [OF w r] n show ?thesis by simp
  qed
qed

lemma writePages_resolved:
  "writePages resolve brands fs cams = (fs', None) \<Longrightarrow>
   \<forall>c \<in> set cams. resolve (cam_id c @ ''.html'') \<noteq> None"
proof (induction cams arbitrary: fs)
  case Nil
  then show ?case by simp
next
  case (Cons cam cams)
  then show ?case
    by (cases "resolve (cam_id cam @ ''.html'')") (auto simp: writeFileSync_def)
qed

lemma writePages_completes:
  "\<forall>c \<in> set cams. resolve (cam_id c @ ''.html'') \<noteq> None \<Longrightarrow>
   \<exists>fs'. writePages resolve brands fs cams = (fs', None)"
proof (induction cams arbitrary: fs)
  case Nil
  then show ?case by simp
next
  case (Cons cam cams)
  then show ?case
    by (cases "resolve (cam_id cam @ ''.html'')") (auto simp: writeFileSync_def)
qed

lemma writePages_file:
  "writePages resolve brands fs cams = (fs', None) \<Longrightarrow>
   c \<in> set cams \<Longrightarrow>
   resolve (cam_id c @ ''.html'') = Some f \<Longrightarrow>
   \<forall>d \<in> set cams. resolve (cam_id d @ ''.html'') = Some f \<longrightarrow> d = c \<Longrightarrow>
   fs' f = Some (cameraPage brands c)"
proof (induction cams arbitrary: fs)
  case Nil
  then show ?case by simp
next
  case (Cons cam cams)
  from Cons.prems(1) obtain g
    where g: "resolve (cam_id cam @ ''.html'') = Some g"
      and w: "writePages resolve brands (fs(g \<mapsto> cameraPage brands cam)) cams = (fs', None)"
    by (cases "resolve (cam_id cam @ ''.html'')") (auto simp: writeFileSync_def)
  from Cons.prems(4)
  have r: "\<forall>d \<in> set cams. resolve (cam_id d @ ''.html'') = Some f \<longrightarrow> d = c"
    by simp
  show ?case
  proof (cases "c \<in> set cams")
    case True
    from Cons.IH [OF w True Cons.prems(3) r] show ?thesis .
  next
    case False
    with Cons.prems(2) have c: "cam = c" by simp
    from r False have "\<forall>d \<in> set cams. resolve (cam_id d @ ''.html'') \<noteq> Some f"
      by blast
    from writePages_other [OF w this] g c Cons.prems(3) show ?thesis by simp
  qed
qed

lemma build_completed:
  "build lc resolve fs files = (fs', None) \<longleftrightarrow>
     (\<exists>brands fs1 g.
        groupCameras (sortCameras lc files) = Inr brands \<and>
        writePages resolve brands fs (sortCameras lc files) = (fs1, None) \<and>
        resolve ''index.html'' = Some g \<and>
        fs' = fs1(g \<mapsto> indexHtml brands (length files)))"
proof (cases "groupCameras (sortCameras lc files)")
  case (Inl e)
  then show ?thesis by (simp add: build_def Let_def)
next
  case (Inr brands)
  obtain fs1 e where w: "writePages resolve brands fs (sortCameras lc files) = (fs1, e)"
    by (cases "writePages resolve brands fs (sortCameras lc files)")
  show ?thesis
  proof (cases e)
    case (Some err)
    with Inr w show ?thesis by (simp add: build_def Let_def)
  next
    case None
    show ?thesis
    proof (cases "resolve ''index.html''")
      case n: None
      with Inr w None show ?thesis by (simp add: build_def Let_def writeFileSync_def)
    next
      case (Some g)
      with Inr w None show ?thesis
        by (auto simp: build_def Let_def writeFileSync_def)
    qed
  qed
qed

text \<open>
  The run completes exactly when no brand names an inherited property and every name,
  also that of the index, can be written.
\<close>

lemma build_completes_iff:
  "(\<exists>fs'. build lc resolve fs files = (fs', None)) \<longleftrightarrow>
     (\<forall>c \<in> set files. brand c \<notin> set objectPrototypeKeys) \<and>
     (\<forall>c \<in> set files. resolve (cam_id c @ ''.html'') \<noteq> None) \<and>
     resolve ''index.html'' \<noteq> None"
proof
  assume "\<exists>fs'. build lc resolve fs files = (fs', None)"
  then obtain fs' brands fs1 g
    where "groupCameras (sortCameras lc files) = Inr brands"
      and "writePages resolve brands fs (sortCameras lc files) = (fs1, None)"
      and "resolve ''index.html'' = Some g"
    unfolding build_completed by blast
  with groupCameras_succeeds_iff [of "sortCameras lc files"]
    writePages_resolved [of resolve brands fs "sortCameras lc files" fs1]
  show "(\<forall>c \<in> set files. brand c \<notin> set objectPrototypeKeys) \<and>
     (\<forall>c \<in> set files. resolve (cam_id c @ ''.html'') \<noteq> None) \<and>
     resolve ''index.html'' \<noteq> None"
    by auto
next
  assume a: "(\<forall>c \<in> set files. brand c \<notin> set objectPrototypeKeys) \<and>
     (\<forall>c \<in> set files. resolve (cam_id c @ ''.html'') \<noteq> None) \<and>
     resolve ''index.html'' \<noteq> None"
  with groupCameras_succeeds_iff [of "sortCameras lc files"]
  obtain brands where b: "groupCameras (sortCameras lc files) = Inr brands" by auto
  from a have "\<forall>c \<in> set (sortCameras lc files). resolve (cam_id c @ ''.html'') \<noteq> None"
    by simp
  from writePages_completes [OF this]
  obtain fs1 where w: "writePages resolve brands fs (sortCameras lc files) = (fs1, None)"
    by blast
  from a obtain g where g: "resolve ''index.html'' = Some g" by auto
  from b w g show "\<exists>fs'. build lc resolve fs files = (fs', None)"
    unfolding build_completed by blast
qed

subsection \<open>The example records\<close>

lemma bareCamera_sel [simp]:
  "cam_id (bareCamera i b n y) = i" "brand (bareCamera i b n y) = b"
  "fullName (bareCamera i b n y) = n" "yearStart (bareCamera i b n y) = y"
  "tagline (bareCamera i b n y) = None" "yearEnd (bareCamera i b n y) = None"
  "format (bareCamera i b n y) = None" "film (bareCamera i b n y) = None"
  "madeIn (bareCamera i b n y) = None" "specs (bareCamera i b n y) = None"
  "features (bareCamera i b n y) = None" "innovations (bareCamera i b n y) = None"
  "famousUsers (bareCamera i b n y) = None" "popCulture (bareCamera i b n y) = None"
  "notesText (bareCamera i b n y) = None" "history (bareCamera i b n y) = None"
  "pricing (bareCamera i b n y) = None" "articles (bareCamera i b n y) = None"
  "manuals (bareCamera i b n y) = None" "galleries (bareCamera i b n y) = None"
  "localImage (bareCamera i b n y) = None" "imageAttribution (bareCamera i b n y) = None"
  "ebayUrl (bareCamera i b n y) = None"
  by (simp_all add: bareCamera_def)

lemma showInt_prices:
  "showInt 50 = ''50''" "showInt 80 = ''80''" "showInt 200 = ''200''" "showInt 300 = ''300''"
  "showInt 100 = ''100''" "showInt 150 = ''150''"
  by code_simp+

lemma example_brands [simp]:
  "brand rollei37 = ''Rollei''" "brand rollei54 = ''Rollei''" "brand mamiya69 = ''Mamiya''"
  "brand ricoh50 = ''Ricoh''"
  by (simp_all add: rollei37_def rollei54_def mamiya69_def ricoh50_def)

lemma example_ids [simp]:
  "cam_id rollei37 = ''rolleiflex-automat''" "cam_id rollei54 = ''rolleiflex-28c''"
  "cam_id mamiya69 = ''mamiya-c330''" "cam_id ricoh50 = ''ricohflex''"
  by (simp_all add: rollei37_def rollei54_def mamiya69_def ricoh50_def)

lemma example_years [simp]:
  "yearStart rollei37 = 1937" "yearStart rollei54 = 1954" "yearStart mamiya69 = 1969"
  "yearStart ricoh50 = 1950"
  by (simp_all add: rollei37_def rollei54_def mamiya69_def ricoh50_def)

lemma example_names [simp]:
  "fullName rollei37 = ''Rolleiflex Automat''" "fullName rollei54 = ''Rolleiflex 2.8C''"
  "fullName mamiya69 = ''Mamiya C330''" "fullName ricoh50 = ''Ricohflex''"
  by (simp_all add: rollei37_def rollei54_def mamiya69_def ricoh50_def)

lemma example_distinct [simp]:
  "rollei37 \<noteq> rollei54" "rollei54 \<noteq> rollei37" "mamiya69 \<noteq> rollei37" "mamiya69 \<noteq> rollei54"
  "rollei37 \<noteq> mamiya69" "rollei54 \<noteq> mamiya69"
  by (auto dest: arg_cong [where f = cam_id])

lemma example_keys [simp]:
  "''Rollei'' \<notin> set objectPrototypeKeys" "''Mamiya'' \<notin> set objectPrototypeKeys"
  "''Ricoh'' \<notin> set objectPrototypeKeys"
  by (simp_all add: objectPrototypeKeys_def)

lemma byteCompare_consistent: "consistentCompare byteCompare"
  unfolding consistentCompare_def byteCompare_def by (auto split: if_splits)

lemma byteCompare_same [simp]: "byteCompare a a = 0"
  by (simp add: byteCompare_def)

lemma byteCompare_Mamiya_Rollei: "byteCompare ''Mamiya'' ''Rollei'' = - 1"
  by (simp add: byteCompare_def less_char_def)

lemma byteCompare_Rollei_Mamiya: "byteCompare ''Rollei'' ''Mamiya'' = 1"
  by (simp add: byteCompare_def less_char_def)

lemma byteCompare_Ricoh_Rollei: "byteCompare ''Ricoh'' ''Rollei'' = - 1"
  by (simp add: byteCompare_def less_char_def)

lemma group_three:
  "groupCameras [mamiya69, rollei37, rollei54] =
     Inr [''Mamiya'' \<mapsto> [mamiya69], ''Rollei'' \<mapsto> [rollei37, rollei54]]"
  by (simp add: groupCameras_def groupStep_ok lookupBrand_def)

lemma sort_two_rollei: "sortCameras byteCompare [rollei54, rollei37] = [rollei37, rollei54]"
  by (simp add: sortCameras_def compareCameras_def)

lemma group_two_rollei:
  "groupCameras [rollei37, rollei54] = Inr [''Rollei'' \<mapsto> [rollei37, rollei54]]"
  by (simp add: groupCameras_def groupStep_ok lookupBrand_def)

lemma sort_rollei_mamiya: "sortCameras byteCompare [rollei37, mamiya69] = [mamiya69, rollei37]"
  by (simp add: sortCameras_def compareCameras_def byteCompare_Mamiya_Rollei
      byteCompare_Rollei_Mamiya)

lemma group_mamiya_rollei:
  "groupCameras [mamiya69, rollei37] = Inr [''Mamiya'' \<mapsto> [mamiya69], ''Rollei'' \<mapsto> [rollei37]]"
  by (simp add: groupCameras_def groupStep_ok lookupBrand_def)

lemma sort_ricoh_rollei: "sortCameras byteCompare [rollei37, ricoh50] = [ricoh50, rollei37]"
  by (simp add: sortCameras_def compareCameras_def byteCompare_Ricoh_Rollei byteCompare_def
      less_char_def)

lemma group_ricoh_rollei:
  "groupCameras [ricoh50, rollei37] = Inr [''Ricoh'' \<mapsto> [ricoh50], ''Rollei'' \<mapsto> [rollei37]]"
  by (simp add: groupCameras_def groupStep_ok lookupBrand_def)

lemma flatDir_examples [simp]:
  "flatDir ''ricohflex.html'' = Some ''ricohflex.html''"
  "flatDir ''rolleiflex-automat.html'' = Some ''rolleiflex-automat.html''"
  "flatDir ''index.html'' = Some ''index.html''"
  "flatDir ''sub/x.html'' = None"
  by (simp_all add: flatDir_def)

lemma build_ricoh_rollei:
  "build byteCompare flatDir Map.empty [rollei37, ricoh50] =
     ([''ricohflex.html'' \<mapsto>
         cameraPage [''Ricoh'' \<mapsto> [ricoh50], ''Rollei'' \<mapsto> [rollei37]] ricoh50,
       ''rolleiflex-automat.html'' \<mapsto>
         cameraPage [''Ricoh'' \<mapsto> [ricoh50], ''Rollei'' \<mapsto> [rollei37]] rollei37,
       ''index.html'' \<mapsto>
         indexHtml [''Ricoh'' \<mapsto> [ricoh50], ''Rollei'' \<mapsto> [rollei37]] 2],
      None)"
  by (simp add: build_def sort_ricoh_rollei group_ricoh_rollei numeral_2_eq_2 Let_def
      writeFileSync_def)

text \<open>
  In that directory the run of a record whose identifier holds a slash stops at the
  write of its page, with nothing written; the page of a record with the identifier
  \<^verbatim>\<open>index\<close> is replaced by the index; and a record of the brand \<^verbatim>\<open>constructor\<close>
  stops the run in the grouping.
\<close>

lemma build_subdirectory:
  "build byteCompare flatDir Map.empty [bareCamera ''sub/x'' ''Ricoh'' ''Ricohflex'' 1950] =
     (Map.empty, Some SystemError)"
  by (simp add: build_def sortCameras_def groupCameras_def groupStep_ok lookupBrand_def
      Let_def writeFileSync_def objectPrototypeKeys_def)

lemma build_index_replaced:
  "build byteCompare flatDir Map.empty [bareCamera ''index'' ''Ricoh'' ''Ricohflex'' 1950] =
     ([''index.html'' \<mapsto>
         indexHtml [''Ricoh'' \<mapsto> [bareCamera ''index'' ''Ricoh'' ''Ricohflex'' 1950]] 1],
      None)"
  by (simp add: build_def sortCameras_def groupCameras_def groupStep_ok lookupBrand_def
      Let_def writeFileSync_def objectPrototypeKeys_def)

lemma build_constructor:
  "build byteCompare flatDir Map.empty
     [bareCamera ''ricohflex'' ''constructor'' ''Ricohflex'' 1950] =
     (Map.empty, Some TypeError)"
  by (simp add: build_def sortCameras_def groupCameras_def groupStep_fail
      Let_def objectPrototypeKeys_def)

lemma lower_brands:
  "toLowerCase ''Rollei'' = ''rollei''" "toLowerCase ''Yashica'' = ''yashica''"
  "toLowerCase ''Mamiya'' = ''mamiya''" "toLowerCase ''Minolta'' = ''minolta''"
  by code_simp+

lemma lower_fh: "toLowerCase ''Franke & Heidecke'' = ''franke & heidecke''"
  by code_simp

section \<open>The claims\<close>

subsection \<open>The price offer of the structured-data block\<close>

text \<open>
  C1, as amended: the structured-data block of a record has an aggregate price offer
  exactly when the record has a pricing field with an average condition. The low bound
  of the offer is the minimum of the poor condition when that is present and not zero,
  else the minimum of the average condition; the high bound is the maximum of the mint
  condition, else of the excellent condition, else of the average condition, each
  taken when present and not zero.
\<close>

theorem offer_bounds:
  "jsonMember (jsonLdData cam) ''offers'' =
     (case pricing cam of
        None \<Rightarrow> JUndefined
      | Some p \<Rightarrow>
          (case average p of
             None \<Rightarrow> JUndefined
           | Some avg \<Rightarrow>
               JObject
                 [(''@type'', JString ''AggregateOffer''),
                  (''priceCurrency'', JString ''USD''),
                  (''lowPrice'',
                     JNumber (case poor p of
                                None \<Rightarrow> minP avg
                              | Some e \<Rightarrow> if minP e \<noteq> 0 then minP e else minP avg)),
                  (''highPrice'',
                     JNumber (let fallback = (case excellent p of
                                                None \<Rightarrow> maxP avg
                                              | Some e \<Rightarrow> if maxP e \<noteq> 0 then maxP e else maxP avg)
                              in case mint p of
                                   None \<Rightarrow> fallback
                                 | Some e \<Rightarrow> if maxP e \<noteq> 0 then maxP e else fallback)),
                  (''offerCount'', JNumber 1)]))"
  by (simp add: jsonMember_offers offers_def lowPrice_def highPrice_def orNum_def
      split: option.splits)

text \<open>
  With the conditions poor (50 to 80), average (100 to 150) and excellent (200 to 300)
  the bounds are 50 and 300.
\<close>

theorem offer_bounds_example:
  "jsonMember (jsonLdData (pricedCamera (poorAndExcellent\<lparr>average := Some \<lparr>minP = 100, maxP = 150\<rparr>\<rparr>)))
     ''offers'' =
   JObject
     [(''@type'', JString ''AggregateOffer''),
      (''priceCurrency'', JString ''USD''),
      (''lowPrice'', JNumber 50),
      (''highPrice'', JNumber 300),
      (''offerCount'', JNumber 1)]"
  using offer_bounds [of "pricedCamera (poorAndExcellent\<lparr>average := Some \<lparr>minP = 100, maxP = 150\<rparr>\<rparr>)"]
  by (simp add: pricedCamera_def poorAndExcellent_def noPricing_def)

text \<open>
  C1 as stated fails: for the record whose pricing has only poor (50 to 80) and
  excellent (200 to 300) the block has no offer at all, since the average condition is
  missing.
\<close>

theorem offer_needs_average:
  "jsonMember (jsonLdData (pricedCamera poorAndExcellent)) ''offers'' = JUndefined \<and>
   ''offers'' \<notin> set (memberNames (jsonLdData (pricedCamera poorAndExcellent)))"
  by (simp add: jsonMember_offers memberNames_jsonLdData offers_def pricedCamera_def
      poorAndExcellent_def noPricing_def)

subsection \<open>Escaping\<close>

text \<open>
  C2, as amended: a string that a template passes through \<open>escHtml\<close> is inserted with
  each of its characters \<^verbatim>\<open>&\<close>, \<^verbatim>\<open><\<close>, \<^verbatim>\<open>>\<close> and \<^verbatim>\<open>"\<close> replaced by its entity and every
  other character kept, so the inserted text holds none of \<^verbatim>\<open><\<close>, \<^verbatim>\<open>>\<close> and \<^verbatim>\<open>"\<close>; an
  absent or null value is inserted as the empty string. The items of the resource
  lists, the image attribution and the rows of the specification table insert their
  data in no other way: their tag and attribute delimiters are those of their
  templates, whatever the data.
\<close>

theorem escHtml_escapes:
  "escHtml (Some s) = concat (map escChar s) \<and>
   escHtml None = [] \<and>
   set (escHtml x) \<inter> {CHR ''<'', CHR ''>'', CHR 0x22} = {} \<and>
   markupChars (articleItem a) =
     markupChars (articleItem \<lparr>a_url = None, a_title = None, a_source = None\<rparr>) \<and>
   markupChars (manualItem m) = markupChars (manualItem \<lparr>m_url = None, m_source = None\<rparr>) \<and>
   markupChars (galleryItem g) = markupChars (galleryItem \<lparr>g_url = None, g_label = None\<rparr>) \<and>
   markupChars (imageAttributionHtml (Some at)) =
     markupChars (imageAttributionHtml
       (Some \<lparr>author = None, licenseUrl = None, license = None, sourceUrl = None\<rparr>)) \<and>
   markupChars (specRow label v) = markupChars (specRow label PNull)"
  by (intro conjI escHtml_Some escHtml_None escHtml_safe markup_articleItem
      markup_manualItem markup_galleryItem markup_attribution markup_specRow)

text \<open>
  C2 as stated fails: not every field is inserted through \<open>escHtml\<close>. The
  structured-data block is written by \<^verbatim>\<open>JSON.stringify\<close>, which leaves an ampersand of
  the tagline and of the brand as it is; and in the breadcrumb the brand is escaped as
  text but not in the link target, while the tagline below it is escaped.
\<close>

theorem fields_inserted_unescaped:
  \<open>jsonLd taglineCamera =
     ''<script type="application/ld+json">{"@context":"https://schema.org",'' @
     ''"@type":"Product","name":"Rolleiflex Old Standard","description":"Sharp & light",'' @
     ''"brand":{"@type":"Brand","name":"Franke & Heidecke"},'' @
     ''"category":"Twin-Lens Reflex Camera"}</script>'' \<and>
   pageIntro taglineCamera =
     ''  <div class="content camera-page">\<newline>'' @
     ''    <p class="breadcrumb"><a href="/cameras/">TLR Camera Guide</a> &rsaquo; '' @
     ''<a href="/cameras/#franke & heidecke">Franke &amp; Heidecke</a> &rsaquo; '' @
     ''Rolleiflex Old Standard</p>\<newline>'' @
     ''\<newline>'' @
     ''    <h1>Rolleiflex Old Standard</h1>\<newline>'' @
     ''    <p class="cam-tagline">Sharp &amp; light</p>\<newline>'' @
     ''\<newline>''\<close>
proof
  show \<open>jsonLd taglineCamera =
     ''<script type="application/ld+json">{"@context":"https://schema.org",'' @
     ''"@type":"Product","name":"Rolleiflex Old Standard","description":"Sharp & light",'' @
     ''"brand":{"@type":"Brand","name":"Franke & Heidecke"},'' @
     ''"category":"Twin-Lens Reflex Camera"}</script>''\<close>
    by code_simp
  show \<open>pageIntro taglineCamera =
     ''  <div class="content camera-page">\<newline>'' @
     ''    <p class="breadcrumb"><a href="/cameras/">TLR Camera Guide</a> &rsaquo; '' @
     ''<a href="/cameras/#franke & heidecke">Franke &amp; Heidecke</a> &rsaquo; '' @
     ''Rolleiflex Old Standard</p>\<newline>'' @
     ''\<newline>'' @
     ''    <h1>Rolleiflex Old Standard</h1>\<newline>'' @
     ''    <p class="cam-tagline">Sharp &amp; light</p>\<newline>'' @
     ''\<newline>''\<close>
    by (simp add: pageIntro_def taglineCamera_def lower_fh taglineHtml_def escHtml_Some
        escChar_def)
qed

subsection \<open>The order of the collection and of the index\<close>

text \<open>
  C3, as amended: for a consistent comparison of brands, the sorted collection holds
  the records of the input, whatever their order there; a record whose brand precedes
  the brand of another stands before it in the sorted collection, and of two records
  whose brands compare equal the one with the smaller start year stands before the
  other. The group of a brand is the sorted collection restricted to that brand, so
  its start years ascend, and the index shows the cards of each group in that order;
  the sections themselves follow the fixed order Rollei, Yashica, Mamiya, Minolta.
\<close>

theorem sorted_collection_order:
  "consistentCompare lc \<Longrightarrow>
   mset (sortCameras lc files) = mset files \<and>
   (\<forall>i j. i < length files \<and> j < length files \<and>
          lc (brand (sortCameras lc files ! i)) (brand (sortCameras lc files ! j)) < 0 \<longrightarrow>
          i < j) \<and>
   (\<forall>i j. i < length files \<and> j < length files \<and>
          lc (brand (sortCameras lc files ! i)) (brand (sortCameras lc files ! j)) = 0 \<and>
          yearStart (sortCameras lc files ! i) < yearStart (sortCameras lc files ! j) \<longrightarrow>
          i < j) \<and>
   (groupCameras (sortCameras lc files) = Inr brands \<longrightarrow>
      (\<forall>b. lookupBrand brands b = filter (\<lambda>c. brand c = b) (sortCameras lc files)) \<and>
      (\<forall>b. sorted (map yearStart (lookupBrand brands b))) \<and>
      brandSections brands =
        sectionOpen ''Rollei'' @
          joinWith ''\<newline>'' (map indexCard (lookupBrand brands ''Rollei'')) @ sectionClose @
        ''\<newline>'' @
        sectionOpen ''Yashica'' @
          joinWith ''\<newline>'' (map indexCard (lookupBrand brands ''Yashica'')) @ sectionClose @
        ''\<newline>'' @
        sectionOpen ''Mamiya'' @
          joinWith ''\<newline>'' (map indexCard (lookupBrand brands ''Mamiya'')) @ sectionClose @
        ''\<newline>'' @
        sectionOpen ''Minolta'' @
          joinWith ''\<newline>'' (map indexCard (lookupBrand brands ''Minolta'')) @ sectionClose)"
proof (intro conjI allI impI)
  assume c: "consistentCompare lc"
  show "mset (sortCameras lc files) = mset files" by simp
  {
    fix i j
    assume "i < length files \<and> j < length files \<and>
          lc (brand (sortCameras lc files ! i)) (brand (sortCameras lc files ! j)) < 0"
    then show "i < j"
      using sorted_brand_before [OF c sorted_sortCameras [OF c], of i files j] by simp
  next
    fix i j
    assume "i < length files \<and> j < length files \<and>
          lc (brand (sortCameras lc files ! i)) (brand (sortCameras lc files ! j)) = 0 \<and>
          yearStart (sortCameras lc files ! i) < yearStart (sortCameras lc files ! j)"
    then show "i < j"
      using sorted_year_before [OF c sorted_sortCameras [OF c], of i files j] by simp
  next
    fix b
    assume g: "groupCameras (sortCameras lc files) = Inr brands"
    show "lookupBrand brands b = filter (\<lambda>c. brand c = b) (sortCameras lc files)"
      using g by (rule groupCameras_lookup)
    show "sorted (map yearStart (lookupBrand brands b))"
      using c g by (rule sorted_years_in_group)
  }
  show "brandSections brands =
        sectionOpen ''Rollei'' @
          joinWith ''\<newline>'' (map indexCard (lookupBrand brands ''Rollei'')) @ sectionClose @
        ''\<newline>'' @
        sectionOpen ''Yashica'' @
          joinWith ''\<newline>'' (map indexCard (lookupBrand brands ''Yashica'')) @ sectionClose @
        ''\<newline>'' @
        sectionOpen ''Mamiya'' @
          joinWith ''\<newline>'' (map indexCard (lookupBrand brands ''Mamiya'')) @ sectionClose @
        ''\<newline>'' @
        sectionOpen ''Minolta'' @
          joinWith ''\<newline>'' (map indexCard (lookupBrand brands ''Minolta'')) @ sectionClose"
    by (rule brandSections_eq)
qed

text \<open>
  The specification's scenario: of two Rollei records with the years 1954 and 1937,
  listed in this order, the one of 1937 has the first card of the Rollei section.
\<close>

theorem sorted_collection_order_witness:
  "consistentCompare byteCompare \<and>
   sortCameras byteCompare [rollei54, rollei37] = [rollei37, rollei54] \<and>
   groupCameras (sortCameras byteCompare [rollei54, rollei37]) =
     Inr [''Rollei'' \<mapsto> [rollei37, rollei54]] \<and>
   lookupBrand [''Rollei'' \<mapsto> [rollei37, rollei54]] ''Rollei'' = [rollei37, rollei54] \<and>
   sorted (map yearStart (lookupBrand [''Rollei'' \<mapsto> [rollei37, rollei54]] ''Rollei'')) \<and>
   brandSections [''Rollei'' \<mapsto> [rollei37, rollei54]] =
     sectionOpen ''Rollei'' @ indexCard rollei37 @ ''\<newline>'' @ indexCard rollei54 @
       sectionClose @ ''\<newline>'' @
     sectionOpen ''Yashica'' @ sectionClose @ ''\<newline>'' @
     sectionOpen ''Mamiya'' @ sectionClose @ ''\<newline>'' @
     sectionOpen ''Minolta'' @ sectionClose"
proof -
  let ?g = "[''Rollei'' \<mapsto> [rollei37, rollei54]]"
  have g: "groupCameras (sortCameras byteCompare [rollei54, rollei37]) = Inr ?g"
    by (simp only: sort_two_rollei group_two_rollei)
  note t = sorted_collection_order [OF byteCompare_consistent, of "[rollei54, rollei37]" ?g]
  from t g have l: "lookupBrand ?g ''Rollei'' = [rollei37, rollei54]"
    by (simp add: sort_two_rollei)
  from t g have s: "sorted (map yearStart (lookupBrand ?g ''Rollei''))" by blast
  from t g have "brandSections ?g =
        sectionOpen ''Rollei'' @
          joinWith ''\<newline>'' (map indexCard (lookupBrand ?g ''Rollei'')) @ sectionClose @
        ''\<newline>'' @
        sectionOpen ''Yashica'' @
          joinWith ''\<newline>'' (map indexCard (lookupBrand ?g ''Yashica'')) @ sectionClose @
        ''\<newline>'' @
        sectionOpen ''Mamiya'' @
          joinWith ''\<newline>'' (map indexCard (lookupBrand ?g ''Mamiya'')) @ sectionClose @
        ''\<newline>'' @
        sectionOpen ''Minolta'' @
          joinWith ''\<newline>'' (map indexCard (lookupBrand ?g ''Minolta'')) @ sectionClose"
    by blast
  then have b: "brandSections ?g =
     sectionOpen ''Rollei'' @ indexCard rollei37 @ ''\<newline>'' @ indexCard rollei54 @
       sectionClose @ ''\<newline>'' @
     sectionOpen ''Yashica'' @ sectionClose @ ''\<newline>'' @
     sectionOpen ''Mamiya'' @ sectionClose @ ''\<newline>'' @
     sectionOpen ''Minolta'' @ sectionClose"
    by (simp add: lookupBrand_def)
  show ?thesis
    using byteCompare_consistent sort_two_rollei g l s b by (intro conjI)
qed

text \<open>
  C3 as stated fails on the index: the brand Mamiya precedes the brand Rollei and the
  Mamiya record precedes the Rollei record in the sorted collection, but on the index
  the card of the Rollei record comes first, since the Rollei section does.
\<close>

theorem index_follows_brand_order:
  "byteCompare (brand mamiya69) (brand rollei37) < 0 \<and>
   sortCameras byteCompare [rollei37, mamiya69] = [mamiya69, rollei37] \<and>
   groupCameras [mamiya69, rollei37] =
     Inr [''Mamiya'' \<mapsto> [mamiya69], ''Rollei'' \<mapsto> [rollei37]] \<and>
   brandSections [''Mamiya'' \<mapsto> [mamiya69], ''Rollei'' \<mapsto> [rollei37]] =
     sectionOpen ''Rollei'' @ indexCard rollei37 @ sectionClose @ ''\<newline>'' @
     sectionOpen ''Yashica'' @ sectionClose @ ''\<newline>'' @
     sectionOpen ''Mamiya'' @ indexCard mamiya69 @ sectionClose @ ''\<newline>'' @
     sectionOpen ''Minolta'' @ sectionClose"
  by (simp add: byteCompare_Mamiya_Rollei sort_rollei_mamiya group_mamiya_rollei
      brandSections_eq lookupBrand_def)

subsection \<open>Omission of absent fields\<close>




subsection \<open>The rel attribute of external links\<close>

text \<open>
  C5, as amended: the link of a photo-gallery entry carries \<^verbatim>\<open>rel="noopener nofollow"\<close>
  exactly when its URL contains \<^verbatim>\<open>google.com\<close>, and \<^verbatim>\<open>rel="noopener"\<close> otherwise, also when it
  has no URL; the links of articles and of manuals always carry \<^verbatim>\<open>rel="noopener"\<close>,
  whatever their URL.
\<close>

theorem link_rel_markers:
  "attrValues ''rel'' (articleItem a) = [''noopener''] \<and>
   attrValues ''rel'' (manualItem m) = [''noopener''] \<and>
   attrValues ''rel'' (galleryItem g) =
     [case g_url g of
        None \<Rightarrow> ''noopener''
      | Some u \<Rightarrow> if sublist ''google.com'' u then ''noopener nofollow'' else ''noopener'']"
  by (simp only: rel_articleItem rel_manualItem rel_galleryItem galleryRel_eq simp_thms)

text \<open>
  The specification's scenario: a gallery entry on the search engine's domain gets the
  marker, one on an editorial site does not.
\<close>

theorem link_rel_markers_example:
  "attrValues ''rel''
     (galleryItem \<lparr>g_url = Some ''https://www.google.com/search?tbm=isch&q=rolleiflex'',
                   g_label = Some ''Google Images''\<rparr>) = [''noopener nofollow''] \<and>
   attrValues ''rel''
     (galleryItem \<lparr>g_url = Some ''https://www.flickr.com/groups/rolleiflex/'',
                   g_label = Some ''Flickr''\<rparr>) = [''noopener'']"
proof -
  have 1: "sublist ''google.com'' ''https://www.google.com/search?tbm=isch&q=rolleiflex''"
    unfolding includes_str_sublist [symmetric] by simp
  have 2: "\<not> sublist ''google.com'' ''https://www.flickr.com/groups/rolleiflex/''"
    unfolding includes_str_sublist [symmetric] by simp
  from link_rel_markers
    [of exampleArticle exampleManual
      "\<lparr>g_url = Some ''https://www.google.com/search?tbm=isch&q=rolleiflex'',
        g_label = Some ''Google Images''\<rparr>"]
    link_rel_markers
    [of exampleArticle exampleManual
      "\<lparr>g_url = Some ''https://www.flickr.com/groups/rolleiflex/'',
        g_label = Some ''Flickr''\<rparr>"]
  show ?thesis by (simp add: 1 2)
qed

text \<open>
  C5 as stated fails: an article link never gets the marker, not even for the URL that
  gets it as a gallery link, and a gallery link to any site but the search engine's
  goes without it; there is no list of allowed domains.
\<close>

theorem article_link_never_nofollow:
  "attrValues ''rel''
     (articleItem \<lparr>a_url = Some ''https://www.google.com/search?q=rolleiflex+review'',
                   a_title = Some ''Reviews'', a_source = Some ''Google''\<rparr>) = [''noopener''] \<and>
   attrValues ''rel''
     (galleryItem \<lparr>g_url = Some ''https://www.google.com/search?q=rolleiflex+review'',
                   g_label = Some ''Reviews''\<rparr>) = [''noopener nofollow''] \<and>
   attrValues ''rel''
     (galleryItem \<lparr>g_url = Some ''https://spam.example/rolleiflex'',
                   g_label = Some ''Photos''\<rparr>) = [''noopener'']"
proof -
  have 1: "isGoogle \<lparr>g_url = Some ''https://www.google.com/search?q=rolleiflex+review'',
                   g_label = Some ''Reviews''\<rparr>"
    by (simp add: isGoogle_def)
  have 2: "\<not> isGoogle \<lparr>g_url = Some ''https://spam.example/rolleiflex'',
                   g_label = Some ''Photos''\<rparr>"
    by (simp add: isGoogle_def)
  show ?thesis
    by (simp only: rel_articleItem rel_galleryItem galleryRel_def 1 2 if_True if_False simp_thms)
qed

subsection \<open>The sections of the index and the pages written\<close>

text \<open>
  C6, as amended: the index holds one titled section for each of the four brands of
  the fixed display order, in that order, also for a brand with no record, whose grid
  is then empty; the section of a brand holds one card for each record of that brand,
  in the order of the sorted collection, so a record of any other brand has no card.
  And whenever the run completes, every record of the input, whatever its brand, has
  its own page: the name made of its identifier denotes a file, and that file holds
  the record's page at the end, provided that no other record's name and not the name
  of the index denotes the same file; the file of the index holds the index.
\<close>

theorem index_sections_and_pages:
  "build lc resolve fs files = (fs', None) \<longrightarrow>
     (\<exists>brands.
        groupCameras (sortCameras lc files) = Inr brands \<and>
        (\<forall>c \<in> set files.
           \<exists>f. resolve (cam_id c @ ''.html'') = Some f \<and>
               ((\<forall>d \<in> set files. resolve (cam_id d @ ''.html'') = Some f \<longrightarrow> d = c) \<and>
                resolve ''index.html'' \<noteq> Some f \<longrightarrow>
                fs' f = Some (cameraPage brands c))) \<and>
        (\<exists>g. resolve ''index.html'' = Some g \<and>
             fs' g = Some (indexHtml brands (length files))) \<and>
        (\<exists>before after.
           indexHtml brands (length files) = before @ brandSections brands @ after) \<and>
        brandSections brands =
          joinWith ''\<newline>''
            (map (\<lambda>b. sectionOpen b @
                       joinWith ''\<newline>''
                         (map indexCard (filter (\<lambda>c. brand c = b) (sortCameras lc files))) @
                       sectionClose)
               brandOrder))"
proof
  assume "build lc resolve fs files = (fs', None)"
  then obtain brands fs1 g
    where gr: "groupCameras (sortCameras lc files) = Inr brands"
      and w: "writePages resolve brands fs (sortCameras lc files) = (fs1, None)"
      and g: "resolve ''index.html'' = Some g"
      and fs': "fs' = fs1(g \<mapsto> indexHtml brands (length files))"
    unfolding build_completed by blast
  have p: "\<forall>c \<in> set files.
           \<exists>f. resolve (cam_id c @ ''.html'') = Some f \<and>
               ((\<forall>d \<in> set files. resolve (cam_id d @ ''.html'') = Some f \<longrightarrow> d = c) \<and>
                resolve ''index.html'' \<noteq> Some f \<longrightarrow>
                fs' f = Some (cameraPage brands c))"
  proof
    fix c
    assume c: "c \<in> set files"
    with writePages_resolved [OF w]
    obtain f where f: "resolve (cam_id c @ ''.html'') = Some f" by auto
    have "fs' f = Some (cameraPage brands c)"
      if u: "\<forall>d \<in> set files. resolve (cam_id d @ ''.html'') = Some f \<longrightarrow> d = c"
        and n: "resolve ''index.html'' \<noteq> Some f"
    proof -
      from c have c': "c \<in> set (sortCameras lc files)" by simp
      from u have u': "\<forall>d \<in> set (sortCameras lc files).
                         resolve (cam_id d @ ''.html'') = Some f \<longrightarrow> d = c"
        by simp
      from writePages_file [OF w c' f u'] have "fs1 f = Some (cameraPage brands c)" .
      moreover from n g have "g \<noteq> f" by simp
      ultimately show ?thesis by (simp add: fs')
    qed
    with f show "\<exists>f. resolve (cam_id c @ ''.html'') = Some f \<and>
               ((\<forall>d \<in> set files. resolve (cam_id d @ ''.html'') = Some f \<longrightarrow> d = c) \<and>
                resolve ''index.html'' \<noteq> Some f \<longrightarrow>
                fs' f = Some (cameraPage brands c))"
      by blast
  qed
  have i: "\<exists>g. resolve ''index.html'' = Some g \<and>
             fs' g = Some (indexHtml brands (length files))"
    using g by (simp add: fs')
  have s: "brandSections brands =
           joinWith ''\<newline>''
             (map (\<lambda>b. sectionOpen b @
                        joinWith ''\<newline>''
                          (map indexCard (filter (\<lambda>c. brand c = b) (sortCameras lc files))) @
                        sectionClose)
                brandOrder)"
    unfolding brandSections_def brandSection_fun by (simp add: groupCameras_lookup [OF gr])
  from gr p i s index_has_sections [of brands "length files"]
  show "\<exists>brands.
        groupCameras (sortCameras lc files) = Inr brands \<and>
        (\<forall>c \<in> set files.
           \<exists>f. resolve (cam_id c @ ''.html'') = Some f \<and>
               ((\<forall>d \<in> set files. resolve (cam_id d @ ''.html'') = Some f \<longrightarrow> d = c) \<and>
                resolve ''index.html'' \<noteq> Some f \<longrightarrow>
                fs' f = Some (cameraPage brands c))) \<and>
        (\<exists>g. resolve ''index.html'' = Some g \<and>
             fs' g = Some (indexHtml brands (length files))) \<and>
        (\<exists>before after.
           indexHtml brands (length files) = before @ brandSections brands @ after) \<and>
        brandSections brands =
          joinWith ''\<newline>''
            (map (\<lambda>b. sectionOpen b @
                       joinWith ''\<newline>''
                         (map indexCard (filter (\<lambda>c. brand c = b) (sortCameras lc files))) @
                       sectionClose)
               brandOrder)"
    by blast
qed

text \<open>
  A Rollei record and a Ricoh record, written into a directory without subdirectories
  that was empty: the run completes, both records have their page, and only the Rollei
  record has a card.
\<close>

theorem index_sections_and_pages_witness:
  "(\<exists>fs'. build byteCompare flatDir Map.empty [rollei37, ricoh50] = (fs', None) \<and>
      fs' ''ricohflex.html'' =
        Some (cameraPage [''Ricoh'' \<mapsto> [ricoh50], ''Rollei'' \<mapsto> [rollei37]] ricoh50) \<and>
      fs' ''rolleiflex-automat.html'' =
        Some (cameraPage [''Ricoh'' \<mapsto> [ricoh50], ''Rollei'' \<mapsto> [rollei37]] rollei37) \<and>
      fs' ''index.html'' =
        Some (indexHtml [''Ricoh'' \<mapsto> [ricoh50], ''Rollei'' \<mapsto> [rollei37]] 2)) \<and>
   brandSections [''Ricoh'' \<mapsto> [ricoh50], ''Rollei'' \<mapsto> [rollei37]] =
     sectionOpen ''Rollei'' @ indexCard rollei37 @ sectionClose @ ''\<newline>'' @
     sectionOpen ''Yashica'' @ sectionClose @ ''\<newline>'' @
     sectionOpen ''Mamiya'' @ sectionClose @ ''\<newline>'' @
     sectionOpen ''Minolta'' @ sectionClose"
proof -
  let ?g = "[''Ricoh'' \<mapsto> [ricoh50], ''Rollei'' \<mapsto> [rollei37]]"
  obtain fs' where b: "build byteCompare flatDir Map.empty [rollei37, ricoh50] = (fs', None)"
    using build_ricoh_rollei by blast
  note t = index_sections_and_pages [of byteCompare flatDir Map.empty "[rollei37, ricoh50]" fs']
  from t b obtain brands
    where g: "groupCameras (sortCameras byteCompare [rollei37, ricoh50]) = Inr brands"
      and p: "\<forall>c \<in> set [rollei37, ricoh50].
           \<exists>f. flatDir (cam_id c @ ''.html'') = Some f \<and>
               ((\<forall>d \<in> set [rollei37, ricoh50].
                   flatDir (cam_id d @ ''.html'') = Some f \<longrightarrow> d = c) \<and>
                flatDir ''index.html'' \<noteq> Some f \<longrightarrow>
                fs' f = Some (cameraPage brands c))"
      and i: "\<exists>g. flatDir ''index.html'' = Some g \<and>
             fs' g = Some (indexHtml brands (length [rollei37, ricoh50]))"
      and s: "brandSections brands =
           joinWith ''\<newline>''
             (map (\<lambda>b. sectionOpen b @
                        joinWith ''\<newline>''
                          (map indexCard
                             (filter (\<lambda>c. brand c = b)
                                (sortCameras byteCompare [rollei37, ricoh50]))) @
                        sectionClose)
                brandOrder)"
    by blast
  from g have e: "brands = ?g" by (simp add: sort_ricoh_rollei group_ricoh_rollei)
  from p have "fs' ''ricohflex.html'' = Some (cameraPage brands ricoh50)"
    and "fs' ''rolleiflex-automat.html'' = Some (cameraPage brands rollei37)"
    by simp_all
  moreover from i have "fs' ''index.html'' = Some (indexHtml brands 2)"
    by (simp add: numeral_2_eq_2)
  moreover from s have "brandSections brands =
     sectionOpen ''Rollei'' @ indexCard rollei37 @ sectionClose @ ''\<newline>'' @
     sectionOpen ''Yashica'' @ sectionClose @ ''\<newline>'' @
     sectionOpen ''Mamiya'' @ sectionClose @ ''\<newline>'' @
     sectionOpen ''Minolta'' @ sectionClose"
    by (simp add: sort_ricoh_rollei brandOrder_def)
  ultimately show ?thesis using b unfolding e by blast
qed

text \<open>
  C6 as stated fails: no section is skipped. For a collection with a single record, of
  the brand Ricoh, all four brands of the display order have no record, and the index
  that the run writes still holds their four sections, each with an empty grid.
\<close>

theorem empty_brand_sections_rendered:
  \<open>build byteCompare flatDir Map.empty [ricoh50] =
     ([''ricohflex.html'' \<mapsto> cameraPage [''Ricoh'' \<mapsto> [ricoh50]] ricoh50,
       ''index.html'' \<mapsto> indexHtml [''Ricoh'' \<mapsto> [ricoh50]] 1],
      None) \<and>
   brandSections [''Ricoh'' \<mapsto> [ricoh50]] =
     ''\<newline>'' @
     ''    <div class="brand-section" id="rollei">\<newline>'' @
     ''      <h2>Rollei TLR Cameras</h2>\<newline>'' @
     ''      <div class="camera-grid"></div>\<newline>'' @
     ''    </div>\<newline>'' @
     ''\<newline>'' @
     ''    <div class="brand-section" id="yashica">\<newline>'' @
     ''      <h2>Yashica TLR Cameras</h2>\<newline>'' @
     ''      <div class="camera-grid"></div>\<newline>'' @
     ''    </div>\<newline>'' @
     ''\<newline>'' @
     ''    <div class="brand-section" id="mamiya">\<newline>'' @
     ''      <h2>Mamiya TLR Cameras</h2>\<newline>'' @
     ''      <div class="camera-grid"></div>\<newline>'' @
     ''    </div>\<newline>'' @
     ''\<newline>'' @
     ''    <div class="brand-section" id="minolta">\<newline>'' @
     ''      <h2>Minolta TLR Cameras</h2>\<newline>'' @
     ''      <div class="camera-grid"></div>\<newline>'' @
     ''    </div>''\<close>
proof -
  have g: "groupCameras [ricoh50] = Inr [''Ricoh'' \<mapsto> [ricoh50]]"
    by (simp add: groupCameras_def groupStep_ok lookupBrand_def)
  have b: "build byteCompare flatDir Map.empty [ricoh50] =
     ([''ricohflex.html'' \<mapsto> cameraPage [''Ricoh'' \<mapsto> [ricoh50]] ricoh50,
       ''index.html'' \<mapsto> indexHtml [''Ricoh'' \<mapsto> [ricoh50]] 1],
      None)"
    by (simp add: build_def sortCameras_def g Let_def writeFileSync_def)
  show ?thesis
    by (simp add: b brandSections_eq lookupBrand_def sectionOpen_def sectionClose_def
        lower_brands escHtml_Some escChar_def)
qed

subsection \<open>Related items\<close>

text \<open>
  C7: when the identifiers of the collection are pairwise different, the related-items
  block of the page of a record R lists the other records of R's brand, all of them
  and in the order of the collection, and never R itself; the block is the empty
  string exactly when R is the only record of its brand. (The grouping is the one the
  script has built from the collection when it renders the pages.)
\<close>

theorem related_items:
  \<open>groupCameras cameras = Inr brands \<Longrightarrow> distinct (map cam_id cameras) \<Longrightarrow> R \<in> set cameras \<Longrightarrow>
   siblings brands R = filter (\<lambda>c. brand c = brand R \<and> c \<noteq> R) cameras \<and>
   R \<notin> set (siblings brands R) \<and>
   relatedCameras brands R =
     (if siblings brands R = [] then []
      else ''<div class="related"><h3>More '' @ escHtml (Some (brand R)) @
           '' TLR Cameras</h3><p>'' @ joinWith '', '' (map relatedLink (siblings brands R)) @
           ''</p></div>'') \<and>
   (relatedCameras brands R = [] \<longleftrightarrow> (\<forall>c \<in> set cameras. brand c = brand R \<longrightarrow> c = R))\<close>
proof (intro conjI)
  assume g: "groupCameras cameras = Inr brands"
    and d: "distinct (map cam_id cameras)" and r: "R \<in> set cameras"
  show s: "siblings brands R = filter (\<lambda>c. brand c = brand R \<and> c \<noteq> R) cameras"
    using g d r by (rule siblings_eq)
  show "R \<notin> set (siblings brands R)" by (simp add: s)
  show \<open>relatedCameras brands R =
     (if siblings brands R = [] then []
      else ''<div class="related"><h3>More '' @ escHtml (Some (brand R)) @
           '' TLR Cameras</h3><p>'' @ joinWith '', '' (map relatedLink (siblings brands R)) @
           ''</p></div>'')\<close>
    by (simp add: relatedCameras_def Let_def)
  show "relatedCameras brands R = [] \<longleftrightarrow> (\<forall>c \<in> set cameras. brand c = brand R \<longrightarrow> c = R)"
    unfolding relatedCameras_empty s by (auto simp: filter_empty_conv)
qed

text \<open>
  Two Rollei records and one Mamiya record: each Rollei page lists the other Rollei
  record, and the Mamiya page has no block.
\<close>

theorem related_items_witness:
  \<open>groupCameras [mamiya69, rollei37, rollei54] =
     Inr [''Mamiya'' \<mapsto> [mamiya69], ''Rollei'' \<mapsto> [rollei37, rollei54]] \<and>
   distinct (map cam_id [mamiya69, rollei37, rollei54]) \<and>
   rollei37 \<in> set [mamiya69, rollei37, rollei54] \<and>
   mamiya69 \<in> set [mamiya69, rollei37, rollei54] \<and>
   siblings [''Mamiya'' \<mapsto> [mamiya69], ''Rollei'' \<mapsto> [rollei37, rollei54]] rollei37 = [rollei54] \<and>
   relatedCameras [''Mamiya'' \<mapsto> [mamiya69], ''Rollei'' \<mapsto> [rollei37, rollei54]] rollei37 =
     ''<div class="related"><h3>More Rollei TLR Cameras</h3><p>'' @
     ''<a href="/cameras/rolleiflex-28c.html">Rolleiflex 2.8C</a></p></div>'' \<and>
   siblings [''Mamiya'' \<mapsto> [mamiya69], ''Rollei'' \<mapsto> [rollei37, rollei54]] mamiya69 = [] \<and>
   relatedCameras [''Mamiya'' \<mapsto> [mamiya69], ''Rollei'' \<mapsto> [rollei37, rollei54]] mamiya69 = []\<close>
proof -
  let ?g = "[''Mamiya'' \<mapsto> [mamiya69], ''Rollei'' \<mapsto> [rollei37, rollei54]]"
  have d: "distinct (map cam_id [mamiya69, rollei37, rollei54])" by simp
  have r: "rollei37 \<in> set [mamiya69, rollei37, rollei54]"
    and m: "mamiya69 \<in> set [mamiya69, rollei37, rollei54]" by simp_all
  note tr = related_items [OF group_three d r]
  note tm = related_items [OF group_three d m]
  have sr: "siblings ?g rollei37 = [rollei54]" using tr by simp
  have sm: "siblings ?g mamiya69 = []" using tm by simp
  have rr: \<open>relatedCameras ?g rollei37 =
     ''<div class="related"><h3>More Rollei TLR Cameras</h3><p>'' @
     ''<a href="/cameras/rolleiflex-28c.html">Rolleiflex 2.8C</a></p></div>''\<close>
    using tr by (simp add: sr relatedLink_def escHtml_Some escChar_def)
  have rm: "relatedCameras ?g mamiya69 = []" using tm by (simp add: sm)
  show ?thesis using group_three d r m sr sm rr rm by (intro conjI)
qed

subsection \<open>The pricing table\<close>

text \<open>
  C8: the rows of the pricing table are one row for each condition present in the
  pricing, in the order poor, average, good, excellent, mint, and none for an absent
  condition; the pricing block is the empty string when no condition is present and
  when the pricing field is absent, and otherwise holds the rows; a record with no
  pricing field has no member \<^verbatim>\<open>offers\<close> in its structured-data block.
\<close>

theorem pricing_table_rows:
  "priceRows p =
     rowOf ''Poor'' (poor p) @ rowOf ''Average'' (average p) @ rowOf ''Good'' (good p) @
     rowOf ''Excellent'' (excellent p) @ rowOf ''Mint'' (mint p) \<and>
   rowOf label None = [] \<and>
   rowOf label (Some e) = priceRow label e \<and>
   formatPrice None = [] \<and>
   (formatPrice (Some p) = [] \<longleftrightarrow>
      poor p = None \<and> average p = None \<and> good p = None \<and> excellent p = None \<and>
      mint p = None) \<and>
   (priceRows p \<noteq> [] \<longrightarrow>
      (\<exists>before after.
         formatPrice (Some p) = before @ ''<tbody>'' @ priceRows p @ ''</tbody>'' @ after)) \<and>
   (pricing cam = None \<longrightarrow>
      formatPrice (pricing cam) = [] \<and> ''offers'' \<notin> set (memberNames (jsonLdData cam)))"
proof (intro conjI impI)
  show "priceRows p =
     rowOf ''Poor'' (poor p) @ rowOf ''Average'' (average p) @ rowOf ''Good'' (good p) @
     rowOf ''Excellent'' (excellent p) @ rowOf ''Mint'' (mint p)"
    by (rule priceRows_eq)
  show "rowOf label None = []" by (simp add: rowOf_def)
  show "rowOf label (Some e) = priceRow label e" by (simp add: rowOf_def)
  show "formatPrice None = []" by simp
  show "formatPrice (Some p) = [] \<longleftrightarrow>
      poor p = None \<and> average p = None \<and> good p = None \<and> excellent p = None \<and>
      mint p = None"
    by (simp only: formatPrice_empty priceRows_empty)
next
  assume "priceRows p \<noteq> []"
  then show "\<exists>before after.
         formatPrice (Some p) = before @ ''<tbody>'' @ priceRows p @ ''</tbody>'' @ after"
    by (rule formatPrice_rows)
next
  assume n: "pricing cam = None"
  then show "formatPrice (pricing cam) = []" by simp
  from n show "''offers'' \<notin> set (memberNames (jsonLdData cam))"
    by (simp add: memberNames_jsonLdData)
qed

text \<open>Two conditions present: two rows, in the fixed order.\<close>

theorem pricing_table_rows_witness:
  "priceRows poorAndExcellent =
     ''<tr><td>Poor</td><td>$50 '' @ ndash @ '' $80</td></tr>'' @
     ''<tr><td>Excellent</td><td>$200 '' @ ndash @ '' $300</td></tr>'' \<and>
   priceRows poorAndExcellent \<noteq> [] \<and>
   (\<exists>before after.
      formatPrice (Some poorAndExcellent) =
      before @ ''<tbody>'' @ priceRows poorAndExcellent @ ''</tbody>'' @ after) \<and>
   pricing (bareCamera ''rolleicord-i'' ''Rollei'' ''Rolleicord I'' 1933) = None \<and>
   formatPrice (pricing (bareCamera ''rolleicord-i'' ''Rollei'' ''Rolleicord I'' 1933)) = [] \<and>
   ''offers'' \<notin>
     set (memberNames (jsonLdData (bareCamera ''rolleicord-i'' ''Rollei'' ''Rolleicord I'' 1933)))"
proof -
  let ?c = "bareCamera ''rolleicord-i'' ''Rollei'' ''Rolleicord I'' 1933"
  note t = pricing_table_rows [of poorAndExcellent "''x''" "\<lparr>minP = 0, maxP = 0\<rparr>" ?c]
  have r: "priceRows poorAndExcellent =
     ''<tr><td>Poor</td><td>$50 '' @ ndash @ '' $80</td></tr>'' @
     ''<tr><td>Excellent</td><td>$200 '' @ ndash @ '' $300</td></tr>''"
    using t by (simp add: poorAndExcellent_def noPricing_def rowOf_def priceRow_def showInt_prices)
  have n: "priceRows poorAndExcellent \<noteq> []"
    by (simp add: r)
  have c: "pricing ?c = None" by simp
  from t n c show ?thesis using r by blast
qed

subsection \<open>The meta line\<close>

text \<open>
  C9: for a record whose film-stock list is absent the meta line is still rendered and
  shows the default film stock, the text \<^verbatim>\<open>on 120 film\<close>; and the meta line is part of the
  page of every record, whatever its fields.
\<close>

theorem meta_line_default_film:
  \<open>film cam = None \<Longrightarrow>
     camMeta cam =
       ''    <div class="cam-meta">\<newline>'' @
       ''      <span class="cam-years">'' @ years cam @ ''</span>\<newline>'' @
       ''      <span class="cam-format">'' @ escHtml (format cam) @ '' on 120 film</span>\<newline>'' @
       ''      '' @ originHtml cam @ ''\<newline>'' @
       ''    </div>'' \<and>
     (\<exists>before after. cameraPage brands cam = before @ camMeta cam @ after)\<close>
proof
  assume "film cam = None"
  then show \<open>camMeta cam =
       ''    <div class="cam-meta">\<newline>'' @
       ''      <span class="cam-years">'' @ years cam @ ''</span>\<newline>'' @
       ''      <span class="cam-format">'' @ escHtml (format cam) @ '' on 120 film</span>\<newline>'' @
       ''      '' @ originHtml cam @ ''\<newline>'' @
       ''    </div>''\<close>
    by (simp add: camMeta_def filmOrDefault_None escHtml_120)
  show \<open>\<exists>before after. cameraPage brands cam = before @ camMeta cam @ after\<close>
    unfolding cameraPage_def by (metis append.assoc)
qed

theorem meta_line_default_film_witness:
  \<open>film (bareCamera ''rolleicord-i'' ''Rollei'' ''Rolleicord I'' 1933) = None \<and>
   camMeta (bareCamera ''rolleicord-i'' ''Rollei'' ''Rolleicord I'' 1933) =
       ''    <div class="cam-meta">\<newline>'' @
       ''      <span class="cam-years">1933</span>\<newline>'' @
       ''      <span class="cam-format"> on 120 film</span>\<newline>'' @
       ''      \<newline>'' @
       ''    </div>'' \<and>
   (\<exists>before after.
      cameraPage Map.empty (bareCamera ''rolleicord-i'' ''Rollei'' ''Rolleicord I'' 1933) =
      before @ camMeta (bareCamera ''rolleicord-i'' ''Rollei'' ''Rolleicord I'' 1933) @ after)\<close>
proof -
  let ?c = "bareCamera ''rolleicord-i'' ''Rollei'' ''Rolleicord I'' 1933"
  have y: "showInt 1933 = ''1933''" by code_simp
  have f: "film ?c = None" by simp
  note t = meta_line_default_film [OF f, of Map.empty]
  have m: \<open>camMeta ?c =
       ''    <div class="cam-meta">\<newline>'' @
       ''      <span class="cam-years">1933</span>\<newline>'' @
       ''      <span class="cam-format"> on 120 film</span>\<newline>'' @
       ''      \<newline>'' @
       ''    </div>''\<close>
    using conjunct1 [OF t] by (simp add: years_def truthyNum_def originHtml_def y)
  show ?thesis
    using f m conjunct2 [OF t] by (intro conjI)
qed

subsection \<open>Falsy values\<close>

text \<open>
  C10: the presence tests are truthiness tests, so a value that is present and falsy
  is treated as an absent one. The escaping helper maps the empty string to the empty
  string, as it does an absent value. A record whose tagline, format, country,
  history, notable users, cultural note, collector notes, purchase link or image
  reference is the empty string, or whose end year is 0, has the same page as the
  record without that field, and the same index card. A specification value of 0, of
  false, of the empty string or of null gives the rows of the table without that
  field, and a condition entry that is null gives no pricing row.
\<close>

theorem falsy_values_like_absent:
  "escHtml (Some []) = escHtml None \<and>
   cameraPage brands (cam\<lparr>tagline := Some []\<rparr>) = cameraPage brands (cam\<lparr>tagline := None\<rparr>) \<and>
   cameraPage brands (cam\<lparr>yearEnd := Some 0\<rparr>) = cameraPage brands (cam\<lparr>yearEnd := None\<rparr>) \<and>
   cameraPage brands (cam\<lparr>format := Some []\<rparr>) = cameraPage brands (cam\<lparr>format := None\<rparr>) \<and>
   cameraPage brands (cam\<lparr>madeIn := Some []\<rparr>) = cameraPage brands (cam\<lparr>madeIn := None\<rparr>) \<and>
   cameraPage brands (cam\<lparr>history := Some []\<rparr>) = cameraPage brands (cam\<lparr>history := None\<rparr>) \<and>
   cameraPage brands (cam\<lparr>famousUsers := Some []\<rparr>) =
     cameraPage brands (cam\<lparr>famousUsers := None\<rparr>) \<and>
   cameraPage brands (cam\<lparr>popCulture := Some []\<rparr>) =
     cameraPage brands (cam\<lparr>popCulture := None\<rparr>) \<and>
   cameraPage brands (cam\<lparr>notesText := Some []\<rparr>) =
     cameraPage brands (cam\<lparr>notesText := None\<rparr>) \<and>
   cameraPage brands (cam\<lparr>ebayUrl := Some []\<rparr>) = cameraPage brands (cam\<lparr>ebayUrl := None\<rparr>) \<and>
   cameraPage brands (cam\<lparr>localImage := Some []\<rparr>) =
     cameraPage brands (cam\<lparr>localImage := None\<rparr>) \<and>
   indexCard (cam\<lparr>localImage := Some []\<rparr>) = indexCard (cam\<lparr>localImage := None\<rparr>) \<and>
   indexCard (cam\<lparr>yearEnd := Some 0\<rparr>) = indexCard (cam\<lparr>yearEnd := None\<rparr>) \<and>
   priceSource (p\<lparr>p_source := Some []\<rparr>) = priceSource (p\<lparr>p_source := None\<rparr>) \<and>
   specRows (sp(k \<mapsto> PNum 0)) = specRows (sp(k := None)) \<and>
   specRows (sp(k \<mapsto> PBool False)) = specRows (sp(k := None)) \<and>
   specRows (sp(k \<mapsto> PStr [])) = specRows (sp(k := None)) \<and>
   specRows (sp(k \<mapsto> PNull)) = specRows (sp(k := None)) \<and>
   priceRows (p\<lparr>poor := None\<rparr>) =
     rowOf ''Average'' (average p) @ rowOf ''Good'' (good p) @
     rowOf ''Excellent'' (excellent p) @ rowOf ''Mint'' (mint p) \<and>
   priceRows (p\<lparr>average := None\<rparr>) =
     rowOf ''Poor'' (poor p) @ rowOf ''Good'' (good p) @
     rowOf ''Excellent'' (excellent p) @ rowOf ''Mint'' (mint p) \<and>
   priceRows (p\<lparr>good := None\<rparr>) =
     rowOf ''Poor'' (poor p) @ rowOf ''Average'' (average p) @
     rowOf ''Excellent'' (excellent p) @ rowOf ''Mint'' (mint p) \<and>
   priceRows (p\<lparr>excellent := None\<rparr>) =
     rowOf ''Poor'' (poor p) @ rowOf ''Average'' (average p) @
     rowOf ''Good'' (good p) @ rowOf ''Mint'' (mint p) \<and>
   priceRows (p\<lparr>mint := None\<rparr>) =
     rowOf ''Poor'' (poor p) @ rowOf ''Average'' (average p) @
     rowOf ''Good'' (good p) @ rowOf ''Excellent'' (excellent p)"
proof -
  have rows:
    "priceRows (p\<lparr>poor := None\<rparr>) =
       rowOf ''Average'' (average p) @ rowOf ''Good'' (good p) @
       rowOf ''Excellent'' (excellent p) @ rowOf ''Mint'' (mint p)"
    "priceRows (p\<lparr>average := None\<rparr>) =
       rowOf ''Poor'' (poor p) @ rowOf ''Good'' (good p) @
       rowOf ''Excellent'' (excellent p) @ rowOf ''Mint'' (mint p)"
    "priceRows (p\<lparr>good := None\<rparr>) =
       rowOf ''Poor'' (poor p) @ rowOf ''Average'' (average p) @
       rowOf ''Excellent'' (excellent p) @ rowOf ''Mint'' (mint p)"
    "priceRows (p\<lparr>excellent := None\<rparr>) =
       rowOf ''Poor'' (poor p) @ rowOf ''Average'' (average p) @
       rowOf ''Good'' (good p) @ rowOf ''Mint'' (mint p)"
    "priceRows (p\<lparr>mint := None\<rparr>) =
       rowOf ''Poor'' (poor p) @ rowOf ''Average'' (average p) @
       rowOf ''Good'' (good p) @ rowOf ''Excellent'' (excellent p)"
    by (simp_all add: priceRows_eq rowOf_def)
  have specs:
    "specRows (sp(k \<mapsto> PNum 0)) = specRows (sp(k := None))"
    "specRows (sp(k \<mapsto> PBool False)) = specRows (sp(k := None))"
    "specRows (sp(k \<mapsto> PStr [])) = specRows (sp(k := None))"
    "specRows (sp(k \<mapsto> PNull)) = specRows (sp(k := None))"
    by (rule specRows_falsy, simp)+
  show ?thesis
    by (intro conjI page_tagline page_yearEnd page_format page_madeIn page_history
        page_famousUsers page_popCulture page_notesText page_ebayUrl page_localImage
        card_localImage card_yearEnd source_empty rows specs) simp
qed

end
